theory Spec2Isabelle
  imports Main "HOL-Library.Sublist"
begin

section \<open>Python strings and values\<close>

text \<open>
  The deployment helper \<^verbatim>\<open>cli_deploy.py\<close> is modelled as a shallow embedding.
  Python \<^verbatim>\<open>str\<close> is \<^typ>\<open>string\<close> (a list of bytes, UTF-8), \<^verbatim>\<open>Optional[str]\<close> is
  \<^typ>\<open>string option\<close>, \<^verbatim>\<open>int\<close> is \<^typ>\<open>int\<close>.
\<close>

abbreviation NL :: char where
  "NL \<equiv> CHR 0x0A"

text \<open>Truthiness of an \<^verbatim>\<open>Optional[str]\<close>: \<^verbatim>\<open>None\<close> and the empty string are false.\<close>

fun truthy :: "string option \<Rightarrow> bool" where
  "truthy None = False"
| "truthy (Some s) = (s \<noteq> [])"

text \<open>What \<^verbatim>\<open>str.format\<close> and f-strings print for an \<^verbatim>\<open>Optional[str]\<close>.\<close>

fun format_optional :: "string option \<Rightarrow> string" where
  "format_optional None = ''None''"
| "format_optional (Some s) = s"


text \<open>\<^verbatim>\<open>str(n)\<close> for an integer: decimal digits, with a minus sign when negative.\<close>

definition digit_char :: "nat \<Rightarrow> char" where
  "digit_char d = ''0123456789'' ! d"

fun str_nat :: "nat \<Rightarrow> string" where
  "str_nat n = (if n < 10 then [digit_char n] else str_nat (n div 10) @ [digit_char (n mod 10)])"

declare str_nat.simps [simp del]

definition str_int :: "int \<Rightarrow> string" where
  "str_int i = (if i < 0 then CHR ''-'' # str_nat (nat (- i)) else str_nat (nat i))"

text \<open>
  Python compares strings code point by code point; on UTF-8 bytes this is the
  lexicographic order of the bytes. \<open>str_gt a b\<close> is \<^verbatim>\<open>a > b\<close>.
\<close>

fun str_lt :: "string \<Rightarrow> string \<Rightarrow> bool" where
  "str_lt [] [] = False"
| "str_lt [] (y # ys) = True"
| "str_lt (x # xs) [] = False"
| "str_lt (x # xs) (y # ys) =
     ((of_char x :: nat) < of_char y \<or> (x = y \<and> str_lt xs ys))"

definition str_gt :: "string \<Rightarrow> string \<Rightarrow> bool" where
  "str_gt a b = str_lt b a"


text \<open>\<^verbatim>\<open>s.endswith(suf)\<close>.\<close>

definition endswith :: "string \<Rightarrow> string \<Rightarrow> bool" where
  "endswith s suf = (length suf \<le> length s \<and> drop (length s - length suf) s = suf)"

text \<open>\<^verbatim>\<open>s.strip()\<close>, on the ASCII white space characters.\<close>

definition isspace :: "char \<Rightarrow> bool" where
  "isspace c = (c \<in> set [CHR '' '', CHR 0x09, CHR 0x0A, CHR 0x0B, CHR 0x0C, CHR 0x0D,
                          CHR 0x1C, CHR 0x1D, CHR 0x1E, CHR 0x1F])"

definition strip :: "string \<Rightarrow> string" where
  "strip s = rev (dropWhile isspace (rev (dropWhile isspace s)))"

text \<open>\<^verbatim>\<open>s.split(c)\<close> for a single separator character: never the empty list.\<close>

fun split_on :: "char \<Rightarrow> string \<Rightarrow> string list" where
  "split_on c [] = [[]]"
| "split_on c (x # xs) =
     (if x = c then [] # split_on c xs
      else (case split_on c xs of [] \<Rightarrow> [[x]] | l # ls \<Rightarrow> (x # l) # ls))"

text \<open>Each line followed by a line break, as a triple-quoted literal lays its lines out.\<close>

definition unlines :: "string list \<Rightarrow> string" where
  "unlines ls = concat (map (\<lambda>l. l @ [NL]) ls)"

section \<open>The templates\<close>

text \<open>
  \<^verbatim>\<open>_DOCKERFILE_TEMPLATE.format(...)\<close> with the keyword arguments of the call in
  \<^verbatim>\<open>to_cloud_run\<close>. The literal starts with a line break, so its first line is empty.
  The arguments \<open>artifact_storage_option\<close>, \<open>adk_version\<close> and \<open>agent_module\<close> are
  passed by the caller and the template has no placeholder for them.
\<close>

type_synonym fragment = string

type_synonym flag = string

definition DOCKERFILE_TEMPLATE_format ::
  "string option \<Rightarrow> string option \<Rightarrow> string \<Rightarrow> string \<Rightarrow> int \<Rightarrow> string
   \<Rightarrow> fragment \<Rightarrow> fragment \<Rightarrow> flag \<Rightarrow> flag \<Rightarrow> flag \<Rightarrow> string \<Rightarrow> flag \<Rightarrow> string
   \<Rightarrow> string" where
  \<open>DOCKERFILE_TEMPLATE_format gcp_project_id gcp_region agent_whl_filename app_name port command
     install_agent_deps install_additional_deps session_db_option artifact_storage_option
     trace_to_cloud_option adk_version host_option agent_module =
   unlines [
     '''',
     ''FROM python:3.11-slim'',
     ''WORKDIR /app'',
     '''',
     ''# Install git and clean up apt cache'',
     ''RUN apt-get update && apt-get install -y git && rm -rf /var/lib/apt/lists/*'',
     '''',
     ''# Create a non-root user'',
     ''RUN adduser --disabled-password --gecos "" myuser'',
     '''',
     ''# Change ownership of /app to myuser'',
     ''RUN chown -R myuser:myuser /app'',
     '''',
     ''# Switch to the non-root user'',
     ''USER myuser'',
     '''',
     ''# Set up environment variables - Start'',
     ''ENV PATH="/home/myuser/.local/bin:$PATH"'',
     '''',
     ''ENV GOOGLE_GENAI_USE_VERTEXAI=1'',
     ''ENV GOOGLE_CLOUD_PROJECT='' @ format_optional gcp_project_id,
     ''ENV GOOGLE_CLOUD_LOCATION='' @ format_optional gcp_region,
     '''',
     ''# Set up environment variables - End'',
     '''',
     ''# Install ADK - Start'',
     ''RUN pip install git+https://github.com/gabriel-pineda/adk-python.git@main'',
     ''# Install ADK - End'',
     '''',
     ''# Install agent from wheel - Start'',
     ''COPY "'' @ agent_whl_filename @ ''" "/app/'' @ agent_whl_filename @ ''"'',
     ''RUN pip install "/app/'' @ agent_whl_filename @ ''"'',
     ''# Install agent from wheel - End'',
     '''',
     ''# Copy agent source files - Start'',
     ''COPY "agents/'' @ app_name @ ''/" "/app/agents/'' @ app_name @ ''/"'',
     install_agent_deps,
     ''# Copy agent source files - End'',
     '''',
     ''# Install additional dependencies - Start'',
     install_additional_deps,
     ''# Install additional dependencies - End'',
     '''',
     ''EXPOSE '' @ str_int port,
     '''',
     ''CMD adk '' @ command @ '' --port='' @ str_int port @ '' '' @ host_option @ '' ''
       @ session_db_option @ '' '' @ trace_to_cloud_option @ '' "/app/agents"''
   ]\<close>


section \<open>The file system\<close>

text \<open>
  A path string resolves to its list of components (split at \<^verbatim>\<open>/\<close>, empty components
  dropped), from one root: the working directory is the root, \<^verbatim>\<open>.\<close> and \<^verbatim>\<open>..\<close> are
  ordinary names and there are no symbolic links. The file system maps a resolved path
  to a regular file with its text, or to a directory.
\<close>

datatype node = File string | Dir

type_synonym fs = "string list \<Rightarrow> node option"

definition comps :: "string \<Rightarrow> string list" where
  "comps p = filter (\<lambda>c. c \<noteq> []) (split_on CHR ''/'' p)"

text \<open>The empty path names nothing (\<^verbatim>\<open>stat('')\<close> fails).\<close>

definition stat :: "fs \<Rightarrow> string \<Rightarrow> node option" where
  "stat s p = (if p = [] then None else s (comps p))"

definition is_file :: "node option \<Rightarrow> bool" where
  "is_file n = (case n of Some (File c) \<Rightarrow> True | _ \<Rightarrow> False)"

definition exists_in :: "fs \<Rightarrow> string \<Rightarrow> bool" where
  "exists_in s p = (stat s p \<noteq> None)"

definition isdir_in :: "fs \<Rightarrow> string \<Rightarrow> bool" where
  "isdir_in s p = (stat s p = Some Dir)"

text \<open>\<^verbatim>\<open>os.path.join(a, b)\<close> and \<^verbatim>\<open>os.path.basename(p)\<close> of \<^verbatim>\<open>posixpath\<close>.\<close>

definition os_path_join :: "string \<Rightarrow> string \<Rightarrow> string" where
  "os_path_join a b =
     (if b \<noteq> [] \<and> hd b = CHR ''/'' then b
      else if a = [] \<or> last a = CHR ''/'' then a @ b
      else a @ ''/'' @ b)"

definition os_path_basename :: "string \<Rightarrow> string" where
  "os_path_basename p = rev (takeWhile (\<lambda>c. c \<noteq> CHR ''/'') (rev p))"

text \<open>
  The exceptions the program and its library calls raise. \<open>DuringHandling e' e\<close> is \<open>e'\<close>
  raised in a \<^verbatim>\<open>finally\<close> block while \<open>e\<close> was propagating: \<open>e'\<close> reaches the caller,
  with \<open>e\<close> as its context.
\<close>

datatype exn =
    ClickException string
  | FileNotFoundError string
  | NotADirectoryError string
  | IsADirectoryError string
  | FileExistsError string
  | SameFileError string string
  | CalledProcessError int "string list"
  | ExternalError string
  | DuringHandling exn exn

text \<open>
  The library calls on the file system, as functions from the file system to an error
  or the new file system. A failing call leaves the file system as it was.
\<close>

definition rmtree_fs :: "string \<Rightarrow> fs \<Rightarrow> exn + fs" where
  "rmtree_fs p s =
     (case stat s p of
        None \<Rightarrow> Inl (FileNotFoundError p)
      | Some (File c) \<Rightarrow> Inl (NotADirectoryError p)
      | Some Dir \<Rightarrow> Inr (\<lambda>q. if prefix (comps p) q then None else s q))"

text \<open>\<^verbatim>\<open>os.makedirs(p, exist_ok=True)\<close>: the missing ancestors and \<open>p\<close> become directories.\<close>

definition makedirs_fs :: "string \<Rightarrow> fs \<Rightarrow> exn + fs" where
  "makedirs_fs p s =
     (if p = [] then Inl (FileNotFoundError p)
      else if is_file (s (comps p)) then Inl (FileExistsError p)
      else if list_ex (\<lambda>a. is_file (s a)) (prefixes (comps p))
        then Inl (NotADirectoryError p)
      else Inr (\<lambda>q. if prefix q (comps p) \<and> s q = None then Some Dir else s q))"

text \<open>\<^verbatim>\<open>open(p, 'w')\<close> followed by \<^verbatim>\<open>write(c)\<close>.\<close>

definition write_fs :: "string \<Rightarrow> string \<Rightarrow> fs \<Rightarrow> exn + fs" where
  "write_fs p c s =
     (if p = [] then Inl (FileNotFoundError p)
      else if s (comps p) = Some Dir then Inl (IsADirectoryError p)
      else (case s (butlast (comps p)) of
              None \<Rightarrow> Inl (FileNotFoundError p)
            | Some (File x) \<Rightarrow> Inl (NotADirectoryError p)
            | Some Dir \<Rightarrow> Inr (s(comps p \<mapsto> File c))))"

text \<open>\<^verbatim>\<open>shutil.copy2(src, dst)\<close>: into \<open>dst\<close> when it is a directory. Metadata is not modelled.\<close>

definition copy2_fs :: "string \<Rightarrow> string \<Rightarrow> fs \<Rightarrow> exn + fs" where
  "copy2_fs src dst s =
     (case stat s src of
        None \<Rightarrow> Inl (FileNotFoundError src)
      | Some Dir \<Rightarrow> Inl (IsADirectoryError src)
      | Some (File c) \<Rightarrow>
          (let dst' = (if isdir_in s dst then os_path_join dst (os_path_basename src) else dst)
           in if comps dst' = comps src then Inl (SameFileError src dst')
              else write_fs dst' c s))"

text \<open>
  \<^verbatim>\<open>shutil.copytree(src, dst)\<close>: \<open>src\<close> is listed, \<open>dst\<close> must not exist and is created with
  its missing ancestors, then the tree under \<open>src\<close> is copied as it was when the call began.
\<close>

definition copytree_fs :: "string \<Rightarrow> string \<Rightarrow> fs \<Rightarrow> exn + fs" where
  "copytree_fs src dst s =
     (case stat s src of
        None \<Rightarrow> Inl (FileNotFoundError src)
      | Some (File c) \<Rightarrow> Inl (NotADirectoryError src)
      | Some Dir \<Rightarrow>
          (if dst = [] then Inl (FileNotFoundError dst)
           else if s (comps dst) \<noteq> None then Inl (FileExistsError dst)
           else if list_ex (\<lambda>a. is_file (s a)) (prefixes (comps dst))
             then Inl (NotADirectoryError dst)
           else Inr (\<lambda>q. if prefix (comps dst) q
                          then s (comps src @ drop (length (comps dst)) q)
                          else if prefix q (comps dst) \<and> s q = None then Some Dir
                          else s q)))"

section \<open>Calls, the environment and sequencing\<close>

text \<open>
  Every call that acts on the world outside the Python process is recorded, in order,
  whether it succeeds or fails. \<^verbatim>\<open>click.echo\<close> progress messages only print and are
  not modelled.
\<close>

datatype agent_obj =
  ModuleAgent string string "(string \<times> string list) list" "string list"

datatype call =
    Rmtree string
  | Makedirs string
  | Copy2 string string
  | Copytree string string
  | WriteFile string string
  | SubprocessRun "string list"
  | Import string
  | SysPathAppend string
  | VertexaiInit string string string
  | DotenvValues string
  | ModuleAgentInit agent_obj
  | AgentEnginesCreate agent_obj string "(string \<times> string) list option" "string list"

text \<open>
  What the program cannot decide: how a subprocess ends (an error starting it, or its
  return code and captured output), whether a call into an imported library raises, and
  how \<^verbatim>\<open>dotenv\<close> parses a file's text. External calls do not change the modelled files.
\<close>

record env =
  subprocess :: "string list \<Rightarrow> exn + (int \<times> string)"
  library :: "call \<Rightarrow> exn option"
  dotenv_parse :: "string \<Rightarrow> (string \<times> string) list"

text \<open>
  A statement sequence is a function from the file system to its outcome (the exception
  raised, or the value), the file system left behind, and the calls made.
\<close>

type_synonym 'a io = "fs \<Rightarrow> (exn + 'a) \<times> fs \<times> call list"

definition return :: "'a \<Rightarrow> 'a io" where
  "return x = (\<lambda>s. (Inr x, s, []))"

definition raise :: "exn \<Rightarrow> 'a io" where
  "raise e = (\<lambda>s. (Inl e, s, []))"

definition io_bind :: "'a io \<Rightarrow> ('a \<Rightarrow> 'b io) \<Rightarrow> 'b io" where
  "io_bind m f = (\<lambda>s.
     case m s of
       (Inl e, s', t) \<Rightarrow> (Inl e, s', t)
     | (Inr x, s', t) \<Rightarrow> (case f x s' of (r, s'', t') \<Rightarrow> (r, s'', t @ t')))"

text \<open>\<^verbatim>\<open>try: m finally: c\<close>.\<close>

definition try_finally :: "'a io \<Rightarrow> unit io \<Rightarrow> 'a io" where
  "try_finally m c = (\<lambda>s.
     case m s of (r, s', t) \<Rightarrow>
       (case c s' of
          (Inr u, s'', t') \<Rightarrow> (r, s'', t @ t')
        | (Inl e', s'', t') \<Rightarrow>
            (case r of
               Inl e \<Rightarrow> (Inl (DuringHandling e' e), s'', t @ t')
             | Inr x \<Rightarrow> (Inl e', s'', t @ t'))))"

definition effect :: "call \<Rightarrow> (fs \<Rightarrow> exn + fs) \<Rightarrow> unit io" where
  "effect c f = (\<lambda>s. case f s of Inl e \<Rightarrow> (Inl e, s, [c]) | Inr s' \<Rightarrow> (Inr (), s', [c]))"

definition query :: "(fs \<Rightarrow> 'a) \<Rightarrow> 'a io" where
  "query f = (\<lambda>s. (Inr (f s), s, []))"

definition os_path_exists :: "string \<Rightarrow> bool io" where
  "os_path_exists p = query (\<lambda>s. exists_in s p)"

definition os_path_isdir :: "string \<Rightarrow> bool io" where
  "os_path_isdir p = query (\<lambda>s. isdir_in s p)"

definition shutil_rmtree :: "string \<Rightarrow> unit io" where
  "shutil_rmtree p = effect (Rmtree p) (rmtree_fs p)"

definition os_makedirs :: "string \<Rightarrow> unit io" where
  "os_makedirs p = effect (Makedirs p) (makedirs_fs p)"

definition shutil_copy2 :: "string \<Rightarrow> string \<Rightarrow> unit io" where
  "shutil_copy2 src dst = effect (Copy2 src dst) (copy2_fs src dst)"

definition shutil_copytree :: "string \<Rightarrow> string \<Rightarrow> unit io" where
  "shutil_copytree src dst = effect (Copytree src dst) (copytree_fs src dst)"

definition write_file :: "string \<Rightarrow> string \<Rightarrow> unit io" where
  "write_file p c = effect (WriteFile p c) (write_fs p c)"


text \<open>\<^verbatim>\<open>subprocess.run(argv, check=True, ...)\<close>: the captured standard output.\<close>

definition subprocess_run :: "env \<Rightarrow> string list \<Rightarrow> string io" where
  "subprocess_run ev argv = (\<lambda>s.
     case subprocess ev argv of
       Inl e \<Rightarrow> (Inl e, s, [SubprocessRun argv])
     | Inr (returncode, out) \<Rightarrow>
         (if returncode \<noteq> 0 then (Inl (CalledProcessError returncode argv), s, [SubprocessRun argv])
          else (Inr out, s, [SubprocessRun argv])))"

section \<open>The program\<close>

fun value_of :: "string option \<Rightarrow> string" where
  "value_of None = []"
| "value_of (Some s) = s"

text \<open>\<^verbatim>\<open>_resolve_project(project_in_option)\<close>.\<close>

definition resolve_project :: "env \<Rightarrow> string option \<Rightarrow> string io" where
  "resolve_project ev project_in_option =
     (if truthy project_in_option then return (value_of project_in_option)
      else io_bind (subprocess_run ev [''gcloud'', ''config'', ''get-value'', ''project''])
             (\<lambda>stdout. return (strip stdout)))"

subsection \<open>\<^verbatim>\<open>to_agent_engine\<close>\<close>

text \<open>Resolving the requirements file: the block under \<^verbatim>\<open>if not requirements_file\<close>.\<close>

definition to_agent_engine_requirements :: "string \<Rightarrow> string option \<Rightarrow> string io" where
  "to_agent_engine_requirements temp_folder requirements_file =
     (if \<not> truthy requirements_file then
        (let requirements_txt_path = os_path_join temp_folder ''requirements.txt'' in
         io_bind (os_path_exists requirements_txt_path) (\<lambda>found.
         io_bind (if \<not> found
                  then write_file requirements_txt_path
                         ''google-cloud-aiplatform[adk,agent_engines]''
                  else return ()) (\<lambda>u.
         return requirements_txt_path)))
      else return (value_of requirements_file))"






subsection \<open>\<^verbatim>\<open>to_cloud_run\<close>\<close>

text \<open>The keyword arguments of \<^verbatim>\<open>to_cloud_run\<close>: the deployment request.\<close>

record request =
  agent_whl_file :: string
  agent_source_dir :: string
  project :: "string option"
  region :: "string option"
  service_name :: string
  app_name :: string
  temp_folder :: string
  port :: int
  trace_to_cloud :: bool
  with_ui :: bool
  verbosity :: string
  session_db_url :: string
  artifact_storage_uri :: "string option"
  adk_version :: string
  agent_module :: "string option"
  additional_requirements :: "string option"

text \<open>Creating the temp folder and copying the wheel file and the agent source code.\<close>

definition to_cloud_run_copy :: "request \<Rightarrow> string \<Rightarrow> unit io" where
  "to_cloud_run_copy r agent_whl_filename =
     io_bind (os_makedirs (temp_folder r)) (\<lambda>u.
     let agent_whl_dest = os_path_join (temp_folder r) agent_whl_filename in
     io_bind (shutil_copy2 (agent_whl_file r) agent_whl_dest) (\<lambda>u.
     let agent_src_path = os_path_join (os_path_join (temp_folder r) ''agents'') (app_name r) in
     shutil_copytree (agent_source_dir r) agent_src_path))"

text \<open>
  The text of the Dockerfile: the host option and the call of
  \<^verbatim>\<open>_DOCKERFILE_TEMPLATE.format\<close>, from the request, the inferred module and the two
  install fragments.
\<close>

definition dockerfile_content ::
  "request \<Rightarrow> string \<Rightarrow> string \<Rightarrow> fragment \<Rightarrow> fragment \<Rightarrow> string" where
  "dockerfile_content r agent_whl_filename agent_module' install_agent_deps
     install_additional_deps =
     (let host_option = (if str_gt (adk_version r) ''0.5.0'' then ''--host=0.0.0.0'' else '''')
      in DOCKERFILE_TEMPLATE_format
           (project r)
           (region r)
           agent_whl_filename
           (app_name r)
           (port r)
           (if with_ui r then ''web'' else ''api_server'')
           install_agent_deps
           install_additional_deps
           (if session_db_url r \<noteq> [] then ''--session_db_url='' @ session_db_url r else '''')
           (if truthy (artifact_storage_uri r)
            then ''--artifact_storage_uri='' @ value_of (artifact_storage_uri r) else '''')
           (if trace_to_cloud r then ''--trace_to_cloud'' else '''')
           (adk_version r)
           host_option
           agent_module')"

text \<open>
  The rendering step: the check for the agent's own \<^verbatim>\<open>requirements.txt\<close> in the copied
  tree, the additional requirements, and the Dockerfile written into the temp folder.
\<close>

definition to_cloud_run_dockerfile :: "request \<Rightarrow> string \<Rightarrow> string \<Rightarrow> unit io" where
  \<open>to_cloud_run_dockerfile r agent_whl_filename agent_module' =
     (let agent_src_path = os_path_join (os_path_join (temp_folder r) ''agents'') (app_name r);
          requirements_txt_path = os_path_join agent_src_path ''requirements.txt'' in
      io_bind (os_path_exists requirements_txt_path) (\<lambda>found.
      let install_agent_deps =
            (if found
             then ''RUN pip install -r "/app/agents/'' @ app_name r @ ''/requirements.txt"''
             else '''') in
      io_bind (if truthy (additional_requirements r)
               then os_path_exists (value_of (additional_requirements r))
               else return False) (\<lambda>additional.
      io_bind (if additional
               then (let requirements_dest =
                           os_path_join (temp_folder r) ''extra-requirements.txt'' in
                     io_bind (shutil_copy2 (value_of (additional_requirements r))
                                requirements_dest) (\<lambda>u.
                     return (''COPY "extra-requirements.txt" "/app/extra-requirements.txt"''
                             @ [NL] @ ''RUN pip install -r "/app/extra-requirements.txt"'')))
               else return '''') (\<lambda>install_additional_deps.
      let dockerfile_path = os_path_join (temp_folder r) ''Dockerfile'' in
      write_file dockerfile_path
        (dockerfile_content r agent_whl_filename agent_module' install_agent_deps
           install_additional_deps)))))\<close>

text \<open>Deploying: the project is resolved and \<^verbatim>\<open>gcloud run deploy\<close> is run.\<close>

definition to_cloud_run_deploy :: "env \<Rightarrow> request \<Rightarrow> unit io" where
  "to_cloud_run_deploy ev r =
     (let region_options = (if truthy (region r) then [''--region'', value_of (region r)]
                            else []) in
      io_bind (resolve_project ev (project r)) (\<lambda>project'.
      io_bind (subprocess_run ev
                 ([''gcloud'', ''run'', ''deploy'', service_name r,
                   ''--source'', temp_folder r,
                   ''--project'', project']
                  @ region_options
                  @ [''--port'', str_int (port r),
                     ''--verbosity'', verbosity r,
                     ''--labels'', ''created-by=adk''])) (\<lambda>completed.
      return ())))"

text \<open>The body of the \<^verbatim>\<open>try\<close> statement.\<close>

definition to_cloud_run_try :: "env \<Rightarrow> request \<Rightarrow> string \<Rightarrow> string \<Rightarrow> unit io" where
  "to_cloud_run_try ev r agent_whl_filename agent_module' =
     io_bind (to_cloud_run_copy r agent_whl_filename) (\<lambda>u.
     io_bind (to_cloud_run_dockerfile r agent_whl_filename agent_module') (\<lambda>u.
     to_cloud_run_deploy ev r))"

definition to_cloud_run :: "env \<Rightarrow> request \<Rightarrow> unit io" where
  "to_cloud_run ev r =
     io_bind (os_path_exists (agent_whl_file r)) (\<lambda>whl_exists.
     if \<not> whl_exists
       then raise (ClickException (''Agent wheel file not found: '' @ agent_whl_file r))
     else if \<not> endswith (agent_whl_file r) ''.whl''
       then raise (ClickException (''Expected a .whl file, got: '' @ agent_whl_file r))
     else
     io_bind (os_path_exists (agent_source_dir r)) (\<lambda>src_exists.
     if \<not> src_exists
       then raise (ClickException
                     (''Agent source directory not found: '' @ agent_source_dir r))
     else
     io_bind (os_path_isdir (agent_source_dir r)) (\<lambda>src_isdir.
     if \<not> src_isdir
       then raise (ClickException
                     (''Agent source path is not a directory: '' @ agent_source_dir r))
     else
     let agent_whl_filename = os_path_basename (agent_whl_file r);
         agent_module' = (if \<not> truthy (agent_module r) then app_name r @ ''.agent''
                          else value_of (agent_module r)) in
     io_bind (os_path_exists (temp_folder r)) (\<lambda>temp_exists.
     io_bind (if temp_exists then shutil_rmtree (temp_folder r) else return ()) (\<lambda>u.
     try_finally
       (to_cloud_run_try ev r agent_whl_filename agent_module')
       (shutil_rmtree (temp_folder r)))))))"

section \<open>Vocabulary of the properties\<close>

text \<open>The three parts of what a statement sequence returns.\<close>

definition outcome_of :: "(exn + 'a) \<times> fs \<times> call list \<Rightarrow> exn + 'a" where
  "outcome_of x = fst x"

definition files_of :: "(exn + 'a) \<times> fs \<times> call list \<Rightarrow> fs" where
  "files_of x = fst (snd x)"

definition calls_of :: "(exn + 'a) \<times> fs \<times> call list \<Rightarrow> call list" where
  "calls_of x = snd (snd x)"

text \<open>The files written among the calls, with their text, and the subprocesses run.\<close>

fun written :: "call list \<Rightarrow> (string \<times> string) list" where
  "written [] = []"
| "written (WriteFile p c # t) = (p, c) # written t"
| "written (x # t) = written t"

fun subprocess_calls :: "call list \<Rightarrow> string list list" where
  "subprocess_calls [] = []"
| "subprocess_calls (SubprocessRun argv # t) = argv # subprocess_calls t"
| "subprocess_calls (x # t) = subprocess_calls t"

definition is_deploy :: "string list \<Rightarrow> bool" where
  "is_deploy argv = (take 3 argv = [''gcloud'', ''run'', ''deploy''])"

definition deploy_invocations :: "call list \<Rightarrow> string list list" where
  "deploy_invocations t = filter is_deploy (subprocess_calls t)"

text \<open>The argument list of the deploy command, for a resolved project.\<close>

definition deploy_argv :: "request \<Rightarrow> string \<Rightarrow> string list" where
  "deploy_argv r resolved =
     [''gcloud'', ''run'', ''deploy'', service_name r, ''--source'', temp_folder r,
      ''--project'', resolved]
     @ (if truthy (region r) then [''--region'', value_of (region r)] else [])
     @ [''--port'', str_int (port r), ''--verbosity'', verbosity r,
        ''--labels'', ''created-by=adk'']"

text \<open>
  The lines of a Dockerfile that install from a requirements file, and its startup
  command lines.
\<close>

definition dependency_installs :: "string \<Rightarrow> string list" where
  "dependency_installs text = filter (prefix ''RUN pip install -r '') (split_on NL text)"

definition startup_commands :: "string \<Rightarrow> string list" where
  "startup_commands text = filter (prefix ''CMD '') (split_on NL text)"


text \<open>
  The path \<^verbatim>\<open>to_cloud_run\<close> checks for the agent's own requirements, and the two install
  fragments it passes to the template.
\<close>

definition agent_requirements_path :: "request \<Rightarrow> string" where
  "agent_requirements_path r =
     os_path_join (os_path_join (os_path_join (temp_folder r) ''agents'') (app_name r))
       ''requirements.txt''"

definition agent_deps_fragment :: "request \<Rightarrow> bool \<Rightarrow> string" where
  \<open>agent_deps_fragment r found =
     (if found then ''RUN pip install -r "/app/agents/'' @ app_name r @ ''/requirements.txt"''
      else '''')\<close>

definition additional_deps_fragment :: "bool \<Rightarrow> string" where
  \<open>additional_deps_fragment additional =
     (if additional
      then ''COPY "extra-requirements.txt" "/app/extra-requirements.txt"'' @ [NL]
           @ ''RUN pip install -r "/app/extra-requirements.txt"''
      else '''')\<close>

text \<open>
  For the cleanup proof: every prefix of a resolved path is a directory, and a statement
  sequence that keeps it so.
\<close>

definition dirs_to :: "string list \<Rightarrow> fs \<Rightarrow> bool" where
  "dirs_to k s = list_all (\<lambda>a. s a = Some Dir) (prefixes k)"

definition keeps :: "string list \<Rightarrow> 'a io \<Rightarrow> bool" where
  "keeps k m = (\<forall>s. dirs_to k s \<longrightarrow> dirs_to k (files_of (m s)))"

text \<open>
  The order of resolution as claim C4 words it: the explicit path, else a generated
  default, else the file of the staged tree. A default can always be generated, so in
  this order the staged file is never reached.
\<close>

definition requirements_as_claimed :: "string \<Rightarrow> string option \<Rightarrow> string io" where
  "requirements_as_claimed tmp requirements_file =
     (if truthy requirements_file then return (value_of requirements_file)
      else (let requirements_txt_path = os_path_join tmp ''requirements.txt'' in
            io_bind (write_file requirements_txt_path
                       ''google-cloud-aiplatform[adk,agent_engines]'') (\<lambda>u.
            return requirements_txt_path)))"

subsection \<open>Example inputs\<close>

definition example_request :: request where
  "example_request =
     \<lparr>agent_whl_file = ''agent.whl'', agent_source_dir = ''src'', project = Some ''proj'',
      region = Some ''us-central1'', service_name = ''svc'', app_name = ''myagent'',
      temp_folder = ''tmp'', port = 8080, trace_to_cloud = False, with_ui = False,
      verbosity = ''info'', session_db_url = '''', artifact_storage_uri = None,
      adk_version = ''0.4.9'', agent_module = None, additional_requirements = None\<rparr>"

text \<open>A session URL that carries a line break and a second Dockerfile instruction.\<close>

definition injecting_request :: request where
  \<open>injecting_request = example_request\<lparr>session_db_url :=
      ''sqlite:///x'' @ [NL] @ ''RUN pip install -r "/app/agents/myagent/requirements.txt"''\<rparr>\<close>

text \<open>No project given: it is to be resolved from the \<^verbatim>\<open>gcloud\<close> configuration.\<close>

definition unresolved_request :: request where
  "unresolved_request = example_request\<lparr>project := None\<rparr>"

text \<open>A wheel and a source directory with its own requirements; no temp folder yet.\<close>

definition example_files :: fs where
  "example_files =
     [[] \<mapsto> Dir, [''agent.whl''] \<mapsto> File ''wheel'', [''src''] \<mapsto> Dir,
      [''src'', ''agent.py''] \<mapsto> File ''code'',
      [''src'', ''requirements.txt''] \<mapsto> File ''flask'']"

text \<open>The example files with a temp folder left over from an earlier run.\<close>

definition stale_files :: fs where
  "stale_files =
     [[] \<mapsto> Dir, [''agent.whl''] \<mapsto> File ''wheel'', [''src''] \<mapsto> Dir,
      [''src'', ''agent.py''] \<mapsto> File ''code'',
      [''src'', ''requirements.txt''] \<mapsto> File ''flask'',
      [''tmp''] \<mapsto> Dir, [''tmp'', ''Dockerfile''] \<mapsto> File ''stale'']"

text \<open>Additional requirements beside the example files, and the request that names them.\<close>

definition extra_request :: request where
  "extra_request = example_request\<lparr>additional_requirements := Some ''extra.txt''\<rparr>"

definition extra_files :: fs where
  "extra_files =
     [[] \<mapsto> Dir, [''agent.whl''] \<mapsto> File ''wheel'', [''src''] \<mapsto> Dir,
      [''src'', ''agent.py''] \<mapsto> File ''code'',
      [''src'', ''requirements.txt''] \<mapsto> File ''flask'',
      [''extra.txt''] \<mapsto> File ''numpy'']"

text \<open>The source directory itself given as the temp folder.\<close>

definition in_place_request :: request where
  "in_place_request = example_request\<lparr>temp_folder := ''src''\<rparr>"

text \<open>Only the root directory.\<close>

definition bare_files :: fs where
  "bare_files = [[] \<mapsto> Dir]"

text \<open>
  Two staged trees with the agent's requirements, and files to deploy from where the
  source directory has no requirements.
\<close>

definition staged_a :: fs where
  "staged_a =
     [[] \<mapsto> Dir, [''tmp''] \<mapsto> Dir, [''tmp'', ''agent.whl''] \<mapsto> File ''wheel'',
      [''tmp'', ''agents''] \<mapsto> Dir, [''tmp'', ''agents'', ''myagent''] \<mapsto> Dir,
      [''tmp'', ''agents'', ''myagent'', ''requirements.txt''] \<mapsto> File ''flask'']"

definition staged_b :: fs where
  "staged_b =
     [[] \<mapsto> Dir, [''tmp''] \<mapsto> Dir, [''tmp'', ''agent.whl''] \<mapsto> File ''other wheel'',
      [''tmp'', ''agents''] \<mapsto> Dir, [''tmp'', ''agents'', ''myagent''] \<mapsto> Dir,
      [''tmp'', ''agents'', ''myagent'', ''agent.py''] \<mapsto> File ''code'',
      [''tmp'', ''agents'', ''myagent'', ''requirements.txt''] \<mapsto> File ''django'']"

definition plain_files :: fs where
  "plain_files =
     [[] \<mapsto> Dir, [''agent.whl''] \<mapsto> File ''wheel'', [''src''] \<mapsto> Dir,
      [''src'', ''agent.py''] \<mapsto> File ''code'']"

text \<open>A staged tree of \<^verbatim>\<open>to_agent_engine\<close> that brings its own requirements.\<close>

definition engine_staged :: fs where
  "engine_staged =
     [[] \<mapsto> Dir, [''tmp''] \<mapsto> Dir, [''tmp'', ''agent.py''] \<mapsto> File ''code'',
      [''tmp'', ''requirements.txt''] \<mapsto> File ''flask'']"

text \<open>A staged tree of \<^verbatim>\<open>to_agent_engine\<close> without requirements.\<close>

definition engine_plain :: fs where
  "engine_plain =
     [[] \<mapsto> Dir, [''tmp''] \<mapsto> Dir, [''tmp'', ''agent.py''] \<mapsto> File ''code'']"

text \<open>An environment where every external call succeeds, and one where \<^verbatim>\<open>gcloud\<close> fails.\<close>

definition example_env :: env where
  "example_env =
     \<lparr>subprocess = (\<lambda>argv. Inr (0, '' default-proj'' @ [NL])),
      library = (\<lambda>c. None),
      dotenv_parse = (\<lambda>c. [])\<rparr>"

definition failing_env :: env where
  "failing_env =
     \<lparr>subprocess = (\<lambda>argv. Inr (1, '''')),
      library = (\<lambda>c. None),
      dotenv_parse = (\<lambda>c. [])\<rparr>"

section \<open>Lemmas on sequencing and text\<close>

lemma io_bind_query [simp]: "io_bind (query f) g s = g (f s) s"
  by (simp add: io_bind_def query_def split: prod.splits)

lemma io_bind_return [simp]: "io_bind (return x) g s = g x s"
  by (simp add: io_bind_def return_def split: prod.splits)

lemma io_bind_raise [simp]: "io_bind (raise e) g s = (Inl e, s, [])"
  by (simp add: io_bind_def raise_def)

lemma io_bind_assoc: "io_bind (io_bind m f) g = io_bind m (\<lambda>x. io_bind (f x) g)"
  by (rule ext) (simp add: io_bind_def split: prod.splits sum.splits)

lemma io_bind_effect:
  "io_bind (effect c f) g s =
     (case f s of Inl e \<Rightarrow> (Inl e, s, [c])
      | Inr s' \<Rightarrow> (case g () s' of (r, s'', t) \<Rightarrow> (r, s'', c # t)))"
  by (simp add: io_bind_def effect_def split: sum.splits prod.splits)

lemma effect_apply:
  "effect c f s = (case f s of Inl e \<Rightarrow> (Inl e, s, [c]) | Inr s' \<Rightarrow> (Inr (), s', [c]))"
  by (simp add: effect_def)

lemma split_on_nonempty [simp]: "split_on c xs \<noteq> []"
  by (induction xs) (auto split: list.splits)

lemma split_on_append: "split_on c (xs @ c # ys) = split_on c xs @ split_on c ys"
  by (induction xs) (auto split: list.splits)

lemma split_on_single: "c \<notin> set xs \<Longrightarrow> split_on c xs = [xs]"
  by (induction xs) auto

lemma dependency_installs_unlines:
  "dependency_installs (unlines ls) = concat (map dependency_installs ls)"
  by (induction ls) (simp_all add: dependency_installs_def unlines_def split_on_append)

lemma dependency_installs_single:
  "NL \<notin> set l \<Longrightarrow>
   dependency_installs l = (if prefix ''RUN pip install -r '' l then [l] else [])"
  by (simp add: dependency_installs_def split_on_single)

lemma startup_commands_unlines:
  "startup_commands (unlines ls) = concat (map startup_commands ls)"
  by (induction ls) (simp_all add: startup_commands_def unlines_def split_on_append)

lemma startup_commands_single:
  "NL \<notin> set l \<Longrightarrow> startup_commands l = (if prefix ''CMD '' l then [l] else [])"
  by (simp add: startup_commands_def split_on_single)

lemma digit_char_not_NL: "d < 10 \<Longrightarrow> NL \<noteq> digit_char d"
proof -
  assume "d < 10"
  then have "d \<in> {0, 1, 2, 3, 4, 5, 6, 7, 8, 9}" by auto
  then show ?thesis by (auto simp add: digit_char_def)
qed

lemma str_nat_single_line: "NL \<notin> set (str_nat n)"
proof (induction n rule: str_nat.induct)
  case (1 n)
  show ?case
  proof (cases "n < 10")
    case True
    then show ?thesis by (simp add: str_nat.simps [of n] digit_char_not_NL)
  next
    case False
    with 1 show ?thesis by (simp add: str_nat.simps [of n] digit_char_not_NL)
  qed
qed

lemma str_int_single_line: "NL \<notin> set (str_int i)"
  by (simp add: str_int_def str_nat_single_line)

lemma str_int_8080: "str_int 8080 = ''8080''"
  by (simp add: str_int_def str_nat.simps digit_char_def)

lemma set_basename: "set (os_path_basename p) \<subseteq> set p"
  using set_takeWhileD [of _ "\<lambda>c. c \<noteq> CHR ''/''" "rev p"]
  by (auto simp add: os_path_basename_def)




text \<open>The definitions a run on given files unfolds to, and the paths of the examples.\<close>

lemmas run_defs = to_cloud_run_def to_cloud_run_try_def to_cloud_run_copy_def
  to_cloud_run_dockerfile_def to_cloud_run_deploy_def resolve_project_def
  os_path_exists_def os_path_isdir_def shutil_rmtree_def os_makedirs_def shutil_copy2_def
  shutil_copytree_def write_file_def subprocess_run_def
  io_bind_def try_finally_def effect_def return_def raise_def query_def
  rmtree_fs_def makedirs_fs_def copy2_fs_def copytree_fs_def write_fs_def
  exists_in_def isdir_in_def stat_def is_file_def

lemma example_comps:
  "comps ''agent.whl'' = [''agent.whl'']" "comps ''src'' = [''src'']" "comps ''tmp'' = [''tmp'']"
  "comps ''tmp/agent.whl'' = [''tmp'', ''agent.whl'']"
  "comps ''tmp/agents/myagent'' = [''tmp'', ''agents'', ''myagent'']"
  "comps ''tmp/agents/myagent/requirements.txt'' = [''tmp'', ''agents'', ''myagent'', ''requirements.txt'']"
  "comps ''tmp/Dockerfile'' = [''tmp'', ''Dockerfile'']"
  by (simp_all add: comps_def)

lemma example_joins:
  "os_path_join ''tmp'' ''agent.whl'' = ''tmp/agent.whl''"
  "os_path_join (os_path_join ''tmp'' ''agents'') ''myagent'' = ''tmp/agents/myagent''"
  "os_path_join ''tmp/agents/myagent'' ''requirements.txt'' = ''tmp/agents/myagent/requirements.txt''"
  "os_path_join ''tmp'' ''Dockerfile'' = ''tmp/Dockerfile''"
  "os_path_basename ''agent.whl'' = ''agent.whl''"
  "endswith ''agent.whl'' ''.whl''"
  by (simp_all add: os_path_join_def os_path_basename_def endswith_def)

section \<open>The rendered Dockerfile\<close>


lemma written_dockerfile:
  assumes "(p, text) \<in> set (written (calls_of (to_cloud_run_dockerfile r w m s)))"
  shows "p = os_path_join (temp_folder r) ''Dockerfile'' \<and>
         text = dockerfile_content r w m
                  (agent_deps_fragment r (exists_in s (agent_requirements_path r)))
                  (additional_deps_fragment (truthy (additional_requirements r) \<and>
                     exists_in s (value_of (additional_requirements r))))"
  using assms
  by (auto simp add: to_cloud_run_dockerfile_def Let_def os_path_exists_def shutil_copy2_def
      write_file_def io_bind_assoc io_bind_effect effect_apply agent_deps_fragment_def
      additional_deps_fragment_def agent_requirements_path_def calls_of_def
      split: if_splits sum.splits prod.splits)

lemma written_dockerfile_cases:
  "written (calls_of (to_cloud_run_dockerfile r w m s)) = [] \<or>
   written (calls_of (to_cloud_run_dockerfile r w m s)) =
     [(os_path_join (temp_folder r) ''Dockerfile'',
       dockerfile_content r w m
         (agent_deps_fragment r (exists_in s (agent_requirements_path r)))
         (additional_deps_fragment (truthy (additional_requirements r) \<and>
            exists_in s (value_of (additional_requirements r)))))]"
  by (auto simp add: to_cloud_run_dockerfile_def Let_def os_path_exists_def shutil_copy2_def
      write_file_def io_bind_assoc io_bind_effect effect_apply agent_deps_fragment_def
      additional_deps_fragment_def agent_requirements_path_def calls_of_def
      split: if_splits sum.splits prod.splits)

lemma written_dockerfile_no_additional:
  assumes "\<not> (truthy (additional_requirements r) \<and>
              exists_in s (value_of (additional_requirements r)))"
  shows "written (calls_of (to_cloud_run_dockerfile r w m s)) =
     [(os_path_join (temp_folder r) ''Dockerfile'',
       dockerfile_content r w m
         (agent_deps_fragment r (exists_in s (agent_requirements_path r)))
         (additional_deps_fragment False))]"
  using assms
  by (auto simp add: to_cloud_run_dockerfile_def Let_def os_path_exists_def shutil_copy2_def
      write_file_def io_bind_assoc io_bind_effect effect_apply agent_deps_fragment_def
      additional_deps_fragment_def agent_requirements_path_def calls_of_def
      split: if_splits sum.splits prod.splits)

lemma dependency_installs_dockerfile:
  assumes "NL \<notin> set (format_optional (project r))" "NL \<notin> set (format_optional (region r))"
    "NL \<notin> set w" "NL \<notin> set (app_name r)" "NL \<notin> set (session_db_url r)"
  shows "dependency_installs (dockerfile_content r w m a b) =
         dependency_installs a @ dependency_installs b"
  using assms
  by (simp add: dockerfile_content_def DOCKERFILE_TEMPLATE_format_def
      dependency_installs_unlines dependency_installs_single str_int_single_line)

lemma dependency_installs_agent_fragment:
  \<open>NL \<notin> set (app_name r) \<Longrightarrow>
   dependency_installs (agent_deps_fragment r found) =
     (if found then [''RUN pip install -r "/app/agents/'' @ app_name r @ ''/requirements.txt"'']
      else [])\<close>
  by (simp add: agent_deps_fragment_def dependency_installs_single)

lemma dependency_installs_additional_fragment:
  \<open>dependency_installs (additional_deps_fragment additional) =
     (if additional then [''RUN pip install -r "/app/extra-requirements.txt"''] else [])\<close>
  by (simp add: additional_deps_fragment_def dependency_installs_def)

lemma staged_a_requirements: "exists_in staged_a (agent_requirements_path example_request)"
  by (simp add: exists_in_def stat_def agent_requirements_path_def example_request_def
      os_path_join_def comps_def staged_a_def)

lemma staged_b_requirements: "exists_in staged_b (agent_requirements_path example_request)"
  by (simp add: exists_in_def stat_def agent_requirements_path_def example_request_def
      os_path_join_def comps_def staged_b_def)

text \<open>
  Claim C7. Rendering is deterministic: two runs of the rendering step for the same
  request, from any two file systems that agree on the presence of the agent's
  \<^verbatim>\<open>requirements.txt\<close> in the copied tree and of the additional requirements file, write
  the same Dockerfile, byte for byte, to the same path.
\<close>

theorem dockerfile_rendering_deterministic:
  assumes "exists_in s1 (agent_requirements_path r) = exists_in s2 (agent_requirements_path r)"
      and "exists_in s1 (value_of (additional_requirements r)) =
           exists_in s2 (value_of (additional_requirements r))"
      and "written (calls_of (to_cloud_run_dockerfile r w m s1)) \<noteq> []"
      and "written (calls_of (to_cloud_run_dockerfile r w m s2)) \<noteq> []"
  shows "written (calls_of (to_cloud_run_dockerfile r w m s1)) =
         written (calls_of (to_cloud_run_dockerfile r w m s2))"
  using assms written_dockerfile_cases [of r w m s1] written_dockerfile_cases [of r w m s2]
  by auto

theorem dockerfile_rendering_deterministic_witness:
  "exists_in staged_a (agent_requirements_path example_request) =
     exists_in staged_b (agent_requirements_path example_request)
   \<and> exists_in staged_a (value_of (additional_requirements example_request)) =
       exists_in staged_b (value_of (additional_requirements example_request))
   \<and> written (calls_of (to_cloud_run_dockerfile example_request ''agent.whl''
                 ''myagent.agent'' staged_a)) \<noteq> []
   \<and> written (calls_of (to_cloud_run_dockerfile example_request ''agent.whl''
                 ''myagent.agent'' staged_b)) \<noteq> []
   \<and> written (calls_of (to_cloud_run_dockerfile example_request ''agent.whl''
                 ''myagent.agent'' staged_a)) =
       written (calls_of (to_cloud_run_dockerfile example_request ''agent.whl''
                 ''myagent.agent'' staged_b))"
proof -
  have a: "\<not> truthy (additional_requirements example_request)"
    by (simp add: example_request_def)
  have h1: "exists_in staged_a (agent_requirements_path example_request) =
            exists_in staged_b (agent_requirements_path example_request)"
    by (simp add: staged_a_requirements staged_b_requirements)
  have h2: "exists_in staged_a (value_of (additional_requirements example_request)) =
            exists_in staged_b (value_of (additional_requirements example_request))"
    by (simp add: example_request_def exists_in_def stat_def)
  have h3: "written (calls_of (to_cloud_run_dockerfile example_request ''agent.whl''
                       ''myagent.agent'' staged_a)) \<noteq> []"
    using a by (simp add: written_dockerfile_no_additional)
  have h4: "written (calls_of (to_cloud_run_dockerfile example_request ''agent.whl''
                       ''myagent.agent'' staged_b)) \<noteq> []"
    using a by (simp add: written_dockerfile_no_additional)
  from dockerfile_rendering_deterministic [OF h1 h2 h3 h4] h1 h2 h3 h4 show ?thesis
    by blast
qed

text \<open>
  Claim C5, as stated, at a request that passes validation: the source directory has no
  \<^verbatim>\<open>requirements.txt\<close>, so the copied tree has none, and no additional requirements are
  given; the call succeeds, yet the Dockerfile it writes has a dependency-install
  instruction for the agent's requirements path. It comes in with the session URL, which
  carries a line break.
\<close>

theorem dependency_installs_counterexample:
  \<open>exists_in plain_files (agent_whl_file injecting_request)
   \<and> endswith (agent_whl_file injecting_request) ''.whl''
   \<and> isdir_in plain_files (agent_source_dir injecting_request)
   \<and> \<not> truthy (additional_requirements injecting_request)
   \<and> \<not> exists_in (files_of (to_cloud_run_copy injecting_request ''agent.whl'' plain_files))
         (agent_requirements_path injecting_request)
   \<and> outcome_of (to_cloud_run example_env injecting_request plain_files) = Inr ()
   \<and> written (calls_of (to_cloud_run example_env injecting_request plain_files))
       = [(''tmp/Dockerfile'',
           dockerfile_content injecting_request ''agent.whl'' ''myagent.agent'' '''' '''')]
   \<and> dependency_installs
         (dockerfile_content injecting_request ''agent.whl'' ''myagent.agent'' '''' '''')
       = [''RUN pip install -r "/app/agents/myagent/requirements.txt"  "/app/agents"'']\<close>
proof -
  have v: "exists_in plain_files (agent_whl_file injecting_request)"
    "endswith (agent_whl_file injecting_request) ''.whl''"
    "isdir_in plain_files (agent_source_dir injecting_request)"
    "\<not> truthy (additional_requirements injecting_request)"
    by (simp_all add: exists_in_def isdir_in_def stat_def injecting_request_def
        example_request_def plain_files_def example_comps example_joins)
  have b: "\<not> exists_in (files_of (to_cloud_run_copy injecting_request ''agent.whl'' plain_files))
         (agent_requirements_path injecting_request)"
    by (simp add: run_defs injecting_request_def example_request_def plain_files_def
        example_comps example_joins files_of_def Let_def agent_requirements_path_def)
  have c: "outcome_of (to_cloud_run example_env injecting_request plain_files) = Inr ()
   \<and> written (calls_of (to_cloud_run example_env injecting_request plain_files))
       = [(''tmp/Dockerfile'',
           dockerfile_content injecting_request ''agent.whl'' ''myagent.agent'' '''' '''')]"
    by (simp add: run_defs injecting_request_def example_request_def plain_files_def
        example_env_def example_comps example_joins outcome_of_def calls_of_def Let_def)
  have d: \<open>dependency_installs
             (dockerfile_content injecting_request ''agent.whl'' ''myagent.agent'' '''' '''')
       = [''RUN pip install -r "/app/agents/myagent/requirements.txt"  "/app/agents"'']\<close>
    by (simp add: dockerfile_content_def DOCKERFILE_TEMPLATE_format_def
          dependency_installs_unlines injecting_request_def example_request_def str_gt_def
          str_int_8080 dependency_installs_single)
       (simp add: dependency_installs_def split_on_append split_on_single)
  from v b c d show ?thesis by blast
qed

text \<open>
  Claim C5, amended: for a request whose text fields (project, region, wheel path,
  app name, session URL) carry no line break, the Dockerfile the rendering step writes
  has exactly these dependency-install lines, in this order: the one for
  \<^verbatim>\<open>/app/agents/<app_name>/requirements.txt\<close> if and only if that file exists in the
  copied tree, then the one for the additional requirements if and only if they are
  supplied and exist.
\<close>

theorem dependency_installs_of_rendered_dockerfile:
  assumes "NL \<notin> set (format_optional (project r))"
      and "NL \<notin> set (format_optional (region r))"
      and "NL \<notin> set (agent_whl_file r)"
      and "NL \<notin> set (app_name r)"
      and "NL \<notin> set (session_db_url r)"
      and "(p, text) \<in> set (written (calls_of
             (to_cloud_run_dockerfile r (os_path_basename (agent_whl_file r)) m s)))"
  shows \<open>dependency_installs text =
     (if exists_in s (agent_requirements_path r)
      then [''RUN pip install -r "/app/agents/'' @ app_name r @ ''/requirements.txt"'']
      else [])
     @ (if truthy (additional_requirements r) \<and>
           exists_in s (value_of (additional_requirements r))
        then [''RUN pip install -r "/app/extra-requirements.txt"''] else [])\<close>
proof -
  have w: "NL \<notin> set (os_path_basename (agent_whl_file r))"
    using assms(3) set_basename [of "agent_whl_file r"] by blast
  from written_dockerfile [OF assms(6)]
  have "text = dockerfile_content r (os_path_basename (agent_whl_file r)) m
                  (agent_deps_fragment r (exists_in s (agent_requirements_path r)))
                  (additional_deps_fragment (truthy (additional_requirements r) \<and>
                     exists_in s (value_of (additional_requirements r))))"
    by simp
  then show ?thesis
    using assms(1,2,4,5) w
    by (simp add: dependency_installs_dockerfile dependency_installs_agent_fragment
        dependency_installs_additional_fragment)
qed

theorem dependency_installs_of_rendered_dockerfile_witness:
  \<open>NL \<notin> set (format_optional (project example_request))
   \<and> NL \<notin> set (format_optional (region example_request))
   \<and> NL \<notin> set (agent_whl_file example_request)
   \<and> NL \<notin> set (app_name example_request)
   \<and> NL \<notin> set (session_db_url example_request)
   \<and> (''tmp/Dockerfile'',
        dockerfile_content example_request ''agent.whl'' ''myagent.agent''
          (agent_deps_fragment example_request True) (additional_deps_fragment False))
       \<in> set (written (calls_of
             (to_cloud_run_dockerfile example_request
                (os_path_basename (agent_whl_file example_request)) ''myagent.agent''
                staged_a)))
   \<and> dependency_installs
        (dockerfile_content example_request ''agent.whl'' ''myagent.agent''
          (agent_deps_fragment example_request True) (additional_deps_fragment False))
       = [''RUN pip install -r "/app/agents/myagent/requirements.txt"'']\<close>
proof -
  have a: "\<not> truthy (additional_requirements example_request)"
    by (simp add: example_request_def)
  have b: "os_path_basename (agent_whl_file example_request) = ''agent.whl''"
    by (simp add: example_request_def os_path_basename_def)
  have h1: "NL \<notin> set (format_optional (project example_request))"
    and h2: "NL \<notin> set (format_optional (region example_request))"
    and h3: "NL \<notin> set (agent_whl_file example_request)"
    and h4: "NL \<notin> set (app_name example_request)"
    and h5: "NL \<notin> set (session_db_url example_request)"
    by (simp_all add: example_request_def)
  have h6: "(''tmp/Dockerfile'',
        dockerfile_content example_request ''agent.whl'' ''myagent.agent''
          (agent_deps_fragment example_request True) (additional_deps_fragment False))
       \<in> set (written (calls_of
             (to_cloud_run_dockerfile example_request
                (os_path_basename (agent_whl_file example_request)) ''myagent.agent''
                staged_a)))"
    using a staged_a_requirements
    by (simp add: written_dockerfile_no_additional b)
       (simp add: example_request_def os_path_join_def)
  from dependency_installs_of_rendered_dockerfile [OF h1 h2 h3 h4 h5 h6] h1 h2 h3 h4 h5 h6
  show ?thesis
    using a staged_a_requirements by (simp add: example_request_def)
qed

section \<open>The host option\<close>




section \<open>Validation and unused inputs of \<^verbatim>\<open>to_cloud_run\<close>\<close>

text \<open>
  Claim C2. When the wheel path does not exist, or lacks the \<^verbatim>\<open>.whl\<close> extension, or the
  source directory is missing or not a directory, \<^verbatim>\<open>to_cloud_run\<close> raises a
  \<^verbatim>\<open>ClickException\<close> whose message ends with the offending path, the file system is
  what it was and no call has been made: no temp folder is created and none is removed.
\<close>

theorem validation_fails_before_any_mutation:
  assumes "\<not> exists_in s (agent_whl_file r) \<or> \<not> endswith (agent_whl_file r) ''.whl''
           \<or> \<not> isdir_in s (agent_source_dir r)"
  shows "to_cloud_run ev r s =
    (Inl (ClickException
      (if \<not> exists_in s (agent_whl_file r)
         then ''Agent wheel file not found: '' @ agent_whl_file r
       else if \<not> endswith (agent_whl_file r) ''.whl''
         then ''Expected a .whl file, got: '' @ agent_whl_file r
       else if \<not> exists_in s (agent_source_dir r)
         then ''Agent source directory not found: '' @ agent_source_dir r
       else ''Agent source path is not a directory: '' @ agent_source_dir r)), s, [])"
  using assms
  by (auto simp add: to_cloud_run_def os_path_exists_def os_path_isdir_def raise_def)

theorem validation_fails_before_any_mutation_witness:
  "\<not> exists_in bare_files (agent_whl_file example_request)
   \<and> to_cloud_run example_env example_request bare_files =
       (Inl (ClickException ''Agent wheel file not found: agent.whl''), bare_files, [])"
proof -
  have h: "\<not> exists_in bare_files (agent_whl_file example_request)"
    by (simp add: exists_in_def stat_def example_request_def comps_def bare_files_def)
  then have h': "\<not> exists_in bare_files (agent_whl_file example_request)
    \<or> \<not> endswith (agent_whl_file example_request) ''.whl''
    \<or> \<not> isdir_in bare_files (agent_source_dir example_request)" by blast
  from validation_fails_before_any_mutation [OF h', of example_env] h h'
  show ?thesis by (simp add: example_request_def)
qed

text \<open>
  Claim C9. A request changed only in \<^verbatim>\<open>artifact_storage_uri\<close> and \<^verbatim>\<open>agent_module\<close> gives
  the same run from the same file system in the same environment: the same outcome,
  the same files and the same calls, among them the Dockerfile written with its text and
  the deploy command run. The text of the Dockerfile does not depend on either value.
\<close>

theorem artifact_uri_and_module_do_not_influence:
  "to_cloud_run ev (r\<lparr>artifact_storage_uri := a, agent_module := m\<rparr>) s = to_cloud_run ev r s
   \<and> dockerfile_content (r\<lparr>artifact_storage_uri := a, agent_module := m\<rparr>) w m1 f1 f2 =
       dockerfile_content r w m2 f1 f2"
  by (simp add: to_cloud_run_def to_cloud_run_try_def to_cloud_run_copy_def
      to_cloud_run_dockerfile_def to_cloud_run_deploy_def dockerfile_content_def
      DOCKERFILE_TEMPLATE_format_def Let_def os_path_exists_def os_path_isdir_def
      cong: if_cong)

section \<open>\<^verbatim>\<open>to_agent_engine\<close>: requirements and the temp folder\<close>

lemma comps_append_sep: "comps (a @ CHR ''/'' # b) = comps a @ comps b"
  by (simp add: comps_def split_on_append)

lemma comps_Nil [simp]: "comps [] = []"
  by (simp add: comps_def)

lemma return_apply: "return x s = (Inr x, s, [])"
  by (simp add: return_def)

lemma comps_join:
  assumes "b = [] \<or> hd b \<noteq> CHR ''/''"
  shows "comps (os_path_join a b) = comps a @ comps b"
proof (cases "a = []")
  case True
  with assms show ?thesis by (auto simp add: os_path_join_def)
next
  case False
  show ?thesis
  proof (cases "last a = CHR ''/''")
    case True
    with False obtain a' where a: "a = a' @ [CHR ''/'']"
      using append_butlast_last_id [of a] by metis
    have "comps a = comps a'" using comps_append_sep [of a' "[]"] by (simp add: a)
    moreover have "comps (a @ b) = comps a' @ comps b"
      using comps_append_sep [of a' b] by (simp add: a)
    ultimately show ?thesis using assms True False by (auto simp add: os_path_join_def)
  next
    case False
    then show ?thesis using assms \<open>a \<noteq> []\<close>
      by (auto simp add: os_path_join_def comps_append_sep)
  qed
qed

lemma comps_name: "CHR ''/'' \<notin> set b \<Longrightarrow> b \<noteq> [] \<Longrightarrow> comps b = [b]"
  by (simp add: comps_def split_on_single)

lemma comps_requirements:
  "comps (os_path_join tmp ''requirements.txt'') = comps tmp @ [''requirements.txt'']"
  by (simp add: comps_join comps_name)

text \<open>
  Claim C4, as stated, on a staged tree that has its own \<^verbatim>\<open>requirements.txt\<close> and with no
  explicit path: the code returns the staged file as it is (its text is \<^verbatim>\<open>flask\<close>) and
  writes nothing, where the claimed order generates the default file first.
\<close>

theorem requirements_order_counterexample:
  "to_agent_engine_requirements ''tmp'' None engine_staged =
     (Inr ''tmp/requirements.txt'', engine_staged, [])
   \<and> stat engine_staged ''tmp/requirements.txt'' = Some (File ''flask'')
   \<and> calls_of (requirements_as_claimed ''tmp'' None engine_staged) =
       [WriteFile ''tmp/requirements.txt'' ''google-cloud-aiplatform[adk,agent_engines]'']
   \<and> to_agent_engine_requirements ''tmp'' None engine_staged \<noteq>
       requirements_as_claimed ''tmp'' None engine_staged"
proof -
  have j: "os_path_join ''tmp'' ''requirements.txt'' = ''tmp/requirements.txt''"
    by (simp add: os_path_join_def)
  have c: "comps ''tmp/requirements.txt'' = [''tmp'', ''requirements.txt'']"
    by (simp add: comps_def)
  have st: "stat engine_staged ''tmp/requirements.txt'' = Some (File ''flask'')"
    by (simp add: stat_def c engine_staged_def)
  have code: "to_agent_engine_requirements ''tmp'' None engine_staged =
     (Inr ''tmp/requirements.txt'', engine_staged, [])"
    using st by (simp add: to_agent_engine_requirements_def Let_def j os_path_exists_def
        exists_in_def return_apply)
  have claimed: "calls_of (requirements_as_claimed ''tmp'' None engine_staged) =
       [WriteFile ''tmp/requirements.txt'' ''google-cloud-aiplatform[adk,agent_engines]'']"
    by (simp add: requirements_as_claimed_def Let_def j write_file_def io_bind_effect calls_of_def
        return_apply split: sum.splits)
  have "calls_of (to_agent_engine_requirements ''tmp'' None engine_staged) = []"
    using code by (simp add: calls_of_def)
  with claimed have "to_agent_engine_requirements ''tmp'' None engine_staged \<noteq>
       requirements_as_claimed ''tmp'' None engine_staged"
    by auto
  with st code claimed show ?thesis by blast
qed

text \<open>
  Claim C4, amended: the requirements file is the explicitly supplied path when one is
  given; else the \<^verbatim>\<open>requirements.txt\<close> of the staged tree when it exists, left as it is;
  else a file generated at that path with the text
  \<^verbatim>\<open>google-cloud-aiplatform[adk,agent_engines]\<close>. In a staged directory without the
  file, generating it succeeds.
\<close>

theorem requirements_resolution_order:
  "to_agent_engine_requirements tmp rf s =
     (if truthy rf then (Inr (value_of rf), s, [])
      else if exists_in s (os_path_join tmp ''requirements.txt'')
        then (Inr (os_path_join tmp ''requirements.txt''), s, [])
      else (case write_fs (os_path_join tmp ''requirements.txt'')
                   ''google-cloud-aiplatform[adk,agent_engines]'' s of
              Inl e \<Rightarrow> (Inl e, s, [WriteFile (os_path_join tmp ''requirements.txt'')
                                     ''google-cloud-aiplatform[adk,agent_engines]''])
            | Inr s' \<Rightarrow> (Inr (os_path_join tmp ''requirements.txt''), s',
                          [WriteFile (os_path_join tmp ''requirements.txt'')
                             ''google-cloud-aiplatform[adk,agent_engines]''])))
   \<and> (\<not> truthy rf \<and> isdir_in s tmp \<and> \<not> exists_in s (os_path_join tmp ''requirements.txt'')
        \<longrightarrow> outcome_of (to_agent_engine_requirements tmp rf s) =
              Inr (os_path_join tmp ''requirements.txt'')
            \<and> stat (files_of (to_agent_engine_requirements tmp rf s))
                 (os_path_join tmp ''requirements.txt'') =
               Some (File ''google-cloud-aiplatform[adk,agent_engines]''))"
proof -
  let ?p = "os_path_join tmp ''requirements.txt''"
  have ne: "?p \<noteq> []" by (auto simp add: os_path_join_def)
  have first: "to_agent_engine_requirements tmp rf s =
     (if truthy rf then (Inr (value_of rf), s, [])
      else if exists_in s ?p then (Inr ?p, s, [])
      else (case write_fs ?p ''google-cloud-aiplatform[adk,agent_engines]'' s of
              Inl e \<Rightarrow> (Inl e, s, [WriteFile ?p ''google-cloud-aiplatform[adk,agent_engines]''])
            | Inr s' \<Rightarrow> (Inr ?p, s',
                          [WriteFile ?p ''google-cloud-aiplatform[adk,agent_engines]''])))"
    by (simp add: to_agent_engine_requirements_def Let_def os_path_exists_def write_file_def
        io_bind_effect return_apply split: sum.splits)
  have second: "outcome_of (to_agent_engine_requirements tmp rf s) = Inr ?p
            \<and> stat (files_of (to_agent_engine_requirements tmp rf s)) ?p =
               Some (File ''google-cloud-aiplatform[adk,agent_engines]'')"
    if h: "\<not> truthy rf" "isdir_in s tmp" "\<not> exists_in s ?p"
  proof -
    from h(2) have d: "s (comps tmp) = Some Dir" by (simp add: isdir_in_def stat_def split: if_splits)
    from h(3) ne have n: "s (comps ?p) = None" by (simp add: exists_in_def stat_def)
    have w: "write_fs ?p ''google-cloud-aiplatform[adk,agent_engines]'' s =
             Inr (s(comps ?p \<mapsto> File ''google-cloud-aiplatform[adk,agent_engines]''))"
      using d n ne by (simp add: write_fs_def comps_requirements)
    show ?thesis
      using h ne by (simp add: first w outcome_of_def files_of_def stat_def)
  qed
  from first second show ?thesis by blast
qed


theorem requirements_resolution_order_witness:
  "\<not> truthy None
   \<and> isdir_in engine_plain ''tmp''
   \<and> \<not> exists_in engine_plain (os_path_join ''tmp'' ''requirements.txt'')
   \<and> outcome_of (to_agent_engine_requirements ''tmp'' None engine_plain) =
       Inr ''tmp/requirements.txt''
   \<and> stat (files_of (to_agent_engine_requirements ''tmp'' None engine_plain))
         ''tmp/requirements.txt'' =
       Some (File ''google-cloud-aiplatform[adk,agent_engines]'')"
proof -
  have j: "os_path_join ''tmp'' ''requirements.txt'' = ''tmp/requirements.txt''"
    by (simp add: os_path_join_def)
  have h1: "\<not> truthy None" by simp
  have h2: "isdir_in engine_plain ''tmp''"
    by (simp add: isdir_in_def stat_def comps_def engine_plain_def)
  have h3: "\<not> exists_in engine_plain (os_path_join ''tmp'' ''requirements.txt'')"
    by (simp add: j exists_in_def stat_def comps_def engine_plain_def)
  from requirements_resolution_order [of "''tmp''" None engine_plain] h1 h2 h3
  have "outcome_of (to_agent_engine_requirements ''tmp'' None engine_plain) =
          Inr (os_path_join ''tmp'' ''requirements.txt'')
        \<and> stat (files_of (to_agent_engine_requirements ''tmp'' None engine_plain))
              (os_path_join ''tmp'' ''requirements.txt'') =
            Some (File ''google-cloud-aiplatform[adk,agent_engines]'')"
    by blast
  with h1 h2 h3 show ?thesis by (simp only: j) simp
qed

lemma calls_of_io_bind:
  "calls_of (io_bind m f s) =
     calls_of (m s) @ (case outcome_of (m s) of Inl e \<Rightarrow> []
                        | Inr x \<Rightarrow> calls_of (f x (files_of (m s))))"
  by (simp add: io_bind_def calls_of_def outcome_of_def files_of_def split: prod.splits sum.splits)

lemma calls_of_try_finally:
  "calls_of (try_finally m c s) = calls_of (m s) @ calls_of (c (files_of (m s)))"
  by (simp add: try_finally_def calls_of_def files_of_def split: prod.splits sum.splits)






section \<open>The deploy invocation\<close>

lemma subprocess_calls_append [simp]:
  "subprocess_calls (a @ b) = subprocess_calls a @ subprocess_calls b"
  by (induction a rule: subprocess_calls.induct) simp_all

lemma deploy_invocations_append [simp]:
  "deploy_invocations (a @ b) = deploy_invocations a @ deploy_invocations b"
  by (simp add: deploy_invocations_def)

lemma calls_of_effect: "calls_of (effect c f s) = [c]"
  by (simp add: effect_def calls_of_def split: sum.splits)

lemma subprocess_calls_copy:
  "subprocess_calls (calls_of (to_cloud_run_copy r w s)) = []"
  by (auto simp add: to_cloud_run_copy_def Let_def os_makedirs_def shutil_copy2_def
      shutil_copytree_def io_bind_effect effect_apply calls_of_def
      split: sum.splits prod.splits)

lemma subprocess_calls_dockerfile:
  "subprocess_calls (calls_of (to_cloud_run_dockerfile r w m s)) = []"
  by (auto simp add: to_cloud_run_dockerfile_def Let_def os_path_exists_def shutil_copy2_def
      write_file_def io_bind_assoc io_bind_effect effect_apply calls_of_def
      split: if_splits sum.splits prod.splits)


lemma subprocess_run_apply:
  "subprocess_run ev argv s =
     (case subprocess ev argv of
        Inl e \<Rightarrow> (Inl e, s, [SubprocessRun argv])
      | Inr (returncode, out) \<Rightarrow>
          (if returncode \<noteq> 0
           then (Inl (CalledProcessError returncode argv), s, [SubprocessRun argv])
           else (Inr out, s, [SubprocessRun argv])))"
  by (simp add: subprocess_run_def)

lemma calls_of_subprocess_run: "calls_of (subprocess_run ev argv s) = [SubprocessRun argv]"
  by (simp add: subprocess_run_apply calls_of_def split: sum.splits prod.splits)

lemma files_of_subprocess_run: "files_of (subprocess_run ev argv s) = s"
  by (simp add: subprocess_run_apply files_of_def split: sum.splits prod.splits)

lemma calls_of_return: "calls_of (return x s) = []"
  by (simp add: return_def calls_of_def)

lemma is_deploy_config: "\<not> is_deploy [''gcloud'', ''config'', ''get-value'', ''project'']"
  by (simp add: is_deploy_def)

lemma is_deploy_argv: "is_deploy (deploy_argv r resolved)"
  by (simp add: is_deploy_def deploy_argv_def)

lemma resolve_project_deploys:
  "deploy_invocations (calls_of (resolve_project ev p s)) = []"
  by (simp add: resolve_project_def calls_of_io_bind calls_of_subprocess_run calls_of_return
      deploy_invocations_def is_deploy_config split: sum.splits)

lemma resolve_project_files: "files_of (resolve_project ev p s) = s"
  by (simp add: resolve_project_def io_bind_def subprocess_run_apply return_def files_of_def
      split: sum.splits prod.splits)

lemma resolve_project_outcome:
  "outcome_of (resolve_project ev p s) = outcome_of (resolve_project ev p s')"
  by (simp add: resolve_project_def io_bind_def subprocess_run_apply return_def outcome_of_def
      split: sum.splits prod.splits)

lemma deploy_invocations_deploy:
  "deploy_invocations (calls_of (to_cloud_run_deploy ev r s)) =
     (case outcome_of (resolve_project ev (project r) s) of
        Inl e \<Rightarrow> []
      | Inr resolved \<Rightarrow> [deploy_argv r resolved])"
proof -
  have "calls_of (to_cloud_run_deploy ev r s) =
        calls_of (resolve_project ev (project r) s)
        @ (case outcome_of (resolve_project ev (project r) s) of
             Inl e \<Rightarrow> []
           | Inr resolved \<Rightarrow> [SubprocessRun (deploy_argv r resolved)])"
    unfolding to_cloud_run_deploy_def Let_def
    by (simp only: calls_of_io_bind calls_of_subprocess_run calls_of_return deploy_argv_def
        files_of_subprocess_run resolve_project_files)
       (simp split: sum.splits)
  then show ?thesis
    by (simp add: resolve_project_deploys)
       (simp add: deploy_invocations_def is_deploy_argv split: sum.splits)
qed

lemma deploy_invocations_try:
  assumes "outcome_of (to_cloud_run_copy r w s) = Inr ()"
      and "outcome_of (to_cloud_run_dockerfile r w m (files_of (to_cloud_run_copy r w s))) = Inr ()"
  shows "deploy_invocations (calls_of (to_cloud_run_try ev r w m s)) =
     (case outcome_of (resolve_project ev (project r) s) of
        Inl e \<Rightarrow> []
      | Inr resolved \<Rightarrow> [deploy_argv r resolved])"
proof -
  have c: "deploy_invocations (calls_of (to_cloud_run_copy r w s)) = []"
    by (simp add: deploy_invocations_def subprocess_calls_copy)
  have d: "deploy_invocations (calls_of (to_cloud_run_dockerfile r w m
             (files_of (to_cloud_run_copy r w s)))) = []"
    by (simp add: deploy_invocations_def subprocess_calls_dockerfile)
  show ?thesis
    unfolding to_cloud_run_try_def
    using assms c d
      resolve_project_outcome [of ev "project r"
        "files_of (to_cloud_run_dockerfile r w m (files_of (to_cloud_run_copy r w s)))" s]
    by (simp add: calls_of_io_bind deploy_invocations_deploy)
qed

lemma example_copy_ok:
  "outcome_of (to_cloud_run_copy example_request ''agent.whl'' example_files) = Inr ()"
  by (simp add: run_defs example_request_def example_files_def example_comps example_joins
      outcome_of_def Let_def)

lemma example_dockerfile_ok:
  "outcome_of (to_cloud_run_dockerfile example_request ''agent.whl'' ''myagent.agent''
     (files_of (to_cloud_run_copy example_request ''agent.whl'' example_files))) = Inr ()"
  by (simp add: run_defs example_request_def example_files_def example_comps example_joins
      outcome_of_def files_of_def Let_def)

text \<open>
  Claim C6, as stated, at a request without a project where the \<^verbatim>\<open>gcloud\<close> configuration
  query exits with code 1: creating the temp folder, copying and writing the Dockerfile
  succeed, \<^verbatim>\<open>_resolve_project\<close> raises \<^verbatim>\<open>CalledProcessError\<close>, and the only subprocess run
  is the query: no deploy invocation is made.
\<close>

theorem deploy_invocation_counterexample:
  "outcome_of (to_cloud_run_copy unresolved_request ''agent.whl'' example_files) = Inr ()
   \<and> outcome_of (to_cloud_run_dockerfile unresolved_request ''agent.whl'' ''myagent.agent''
        (files_of (to_cloud_run_copy unresolved_request ''agent.whl'' example_files))) = Inr ()
   \<and> outcome_of (to_cloud_run failing_env unresolved_request example_files) =
       Inl (CalledProcessError 1 [''gcloud'', ''config'', ''get-value'', ''project''])
   \<and> subprocess_calls (calls_of (to_cloud_run failing_env unresolved_request example_files)) =
       [[''gcloud'', ''config'', ''get-value'', ''project'']]
   \<and> deploy_invocations (calls_of (to_cloud_run failing_env unresolved_request example_files)) = []"
  by (simp add: run_defs unresolved_request_def example_request_def example_files_def
      failing_env_def example_comps example_joins outcome_of_def calls_of_def files_of_def Let_def
      deploy_invocations_def is_deploy_def)

text \<open>
  Claim C6, amended: after every successful staging (the copies and the Dockerfile),
  exactly one deploy invocation is made when the project is resolved (given, or read
  from the \<^verbatim>\<open>gcloud\<close> configuration), with exactly the argument list \<open>deploy_argv\<close>: the
  service name, the temp folder as source, the resolved project, the region if and only
  if one is given and not empty, the port, the verbosity and the label
  \<^verbatim>\<open>created-by=adk\<close>; when resolving the project raises, none is made.
\<close>

theorem one_deploy_invocation:
  assumes "outcome_of (to_cloud_run_copy r w s) = Inr ()"
      and "outcome_of (to_cloud_run_dockerfile r w m (files_of (to_cloud_run_copy r w s))) = Inr ()"
  shows "deploy_invocations (calls_of (to_cloud_run_try ev r w m s)) =
     (case outcome_of (resolve_project ev (project r) s) of
        Inl e \<Rightarrow> []
      | Inr resolved \<Rightarrow> [deploy_argv r resolved])"
  using assms by (rule deploy_invocations_try)

theorem one_deploy_invocation_witness:
  "outcome_of (to_cloud_run_copy example_request ''agent.whl'' example_files) = Inr ()
   \<and> outcome_of (to_cloud_run_dockerfile example_request ''agent.whl'' ''myagent.agent''
        (files_of (to_cloud_run_copy example_request ''agent.whl'' example_files))) = Inr ()
   \<and> deploy_invocations (calls_of (to_cloud_run_try example_env example_request ''agent.whl''
        ''myagent.agent'' example_files)) =
       [[''gcloud'', ''run'', ''deploy'', ''svc'', ''--source'', ''tmp'', ''--project'', ''proj'',
         ''--region'', ''us-central1'', ''--port'', ''8080'', ''--verbosity'', ''info'',
         ''--labels'', ''created-by=adk'']]"
proof -
  have p: "outcome_of (resolve_project example_env (project example_request) example_files) =
           Inr ''proj''"
    by (simp add: resolve_project_def example_request_def return_def outcome_of_def)
  have a: "deploy_argv example_request ''proj'' =
       [''gcloud'', ''run'', ''deploy'', ''svc'', ''--source'', ''tmp'', ''--project'', ''proj'',
         ''--region'', ''us-central1'', ''--port'', ''8080'', ''--verbosity'', ''info'',
         ''--labels'', ''created-by=adk'']"
    by (simp add: deploy_argv_def example_request_def str_int_8080)
  from one_deploy_invocation [OF example_copy_ok example_dockerfile_ok, of example_env]
    example_copy_ok example_dockerfile_ok p a
  show ?thesis by simp
qed


section \<open>Cleanup of the temp folder\<close>

lemma dirs_to_iff: "dirs_to k s \<longleftrightarrow> (\<forall>a. prefix a k \<longrightarrow> s a = Some Dir)"
  by (auto simp add: dirs_to_def list_all_iff in_set_prefixes)





lemma makedirs_keeps:
  assumes "dirs_to k s" and "makedirs_fs p s = Inr s'"
  shows "dirs_to k s'"
  using assms
  by (auto simp add: dirs_to_iff makedirs_fs_def split: if_splits)





lemma keeps_raise [intro!]: "keeps k (raise e)"
  by (simp add: keeps_def raise_def files_of_def)





lemma keeps_effect:
  assumes "\<And>s s'. dirs_to k s \<Longrightarrow> f s = Inr s' \<Longrightarrow> dirs_to k s'"
  shows "keeps k (effect c f)"
  using assms by (auto simp add: keeps_def effect_def files_of_def split: sum.splits)



lemma keeps_makedirs [intro!]: "keeps k (os_makedirs p)"
  unfolding os_makedirs_def by (rule keeps_effect) (rule makedirs_keeps)













lemma io_bind_exists: "io_bind (os_path_exists p) f s = f (exists_in s p) s"
  by (simp add: os_path_exists_def)

lemma io_bind_isdir: "io_bind (os_path_isdir p) f s = f (isdir_in s p) s"
  by (simp add: os_path_isdir_def)

lemma calls_of_rmtree: "calls_of (shutil_rmtree p s) = [Rmtree p]"
  by (simp add: shutil_rmtree_def calls_of_effect)








section \<open>A whole run up to the Dockerfile\<close>

lemma written_append [simp]: "written (a @ b) = written a @ written b"
  by (induction a rule: written.induct) simp_all

lemma written_copy: "written (calls_of (to_cloud_run_copy r w s)) = []"
  by (auto simp add: to_cloud_run_copy_def Let_def os_makedirs_def shutil_copy2_def
      shutil_copytree_def io_bind_effect effect_apply calls_of_def
      split: sum.splits prod.splits)

lemma written_resolve_project: "written (calls_of (resolve_project ev p s)) = []"
  by (simp add: resolve_project_def calls_of_io_bind calls_of_subprocess_run calls_of_return
      split: sum.splits)

lemma written_deploy: "written (calls_of (to_cloud_run_deploy ev r s)) = []"
  unfolding to_cloud_run_deploy_def Let_def
  by (simp add: calls_of_io_bind calls_of_subprocess_run calls_of_return
      written_resolve_project split: sum.splits)

lemma written_try:
  assumes "(p, text) \<in> set (written (calls_of (to_cloud_run_try ev r w m s)))"
  shows "outcome_of (to_cloud_run_copy r w s) = Inr ()
       \<and> (p, text) \<in> set (written (calls_of
             (to_cloud_run_dockerfile r w m (files_of (to_cloud_run_copy r w s)))))"
  using assms
  by (auto simp add: to_cloud_run_try_def calls_of_io_bind written_copy written_deploy
      split: sum.splits)

lemma to_cloud_run_invalid_calls:
  assumes "\<not> (exists_in s (agent_whl_file r) \<and> endswith (agent_whl_file r) ''.whl''
              \<and> isdir_in s (agent_source_dir r))"
  shows "calls_of (to_cloud_run ev r s) = []"
  using assms
  by (auto simp add: to_cloud_run_def os_path_exists_def os_path_isdir_def raise_def calls_of_def)

lemma to_cloud_run_valid:
  assumes "exists_in s (agent_whl_file r)" "endswith (agent_whl_file r) ''.whl''"
      "isdir_in s (agent_source_dir r)"
  shows "to_cloud_run ev r s =
        io_bind (if exists_in s (temp_folder r) then shutil_rmtree (temp_folder r) else return ())
          (\<lambda>u. try_finally
             (to_cloud_run_try ev r (os_path_basename (agent_whl_file r))
                (if \<not> truthy (agent_module r) then app_name r @ ''.agent''
                 else value_of (agent_module r)))
             (shutil_rmtree (temp_folder r))) s"
proof -
  from assms(3) have "exists_in s (agent_source_dir r)"
    by (simp add: isdir_in_def exists_in_def)
  with assms show ?thesis
    by (simp add: to_cloud_run_def io_bind_exists io_bind_isdir Let_def)
qed

lemma outcome_of_effect:
  "outcome_of (effect c f s) = (case f s of Inl e \<Rightarrow> Inl e | Inr s' \<Rightarrow> Inr ())"
  by (simp add: effect_def outcome_of_def split: sum.splits)

lemma files_of_effect:
  "files_of (effect c f s) = (case f s of Inl e \<Rightarrow> s | Inr s' \<Rightarrow> s')"
  by (simp add: effect_def files_of_def split: sum.splits)

lemma written_whole_run:
  assumes "(p, text) \<in> set (written (calls_of (to_cloud_run ev r s)))"
  shows "\<exists>s1. (s1 = s \<or> s1 = (\<lambda>q. if prefix (comps (temp_folder r)) q then None else s q))
          \<and> outcome_of (to_cloud_run_copy r (os_path_basename (agent_whl_file r)) s1) = Inr ()
          \<and> (p, text) \<in> set (written (calls_of
               (to_cloud_run_dockerfile r (os_path_basename (agent_whl_file r))
                  (if \<not> truthy (agent_module r) then app_name r @ ''.agent''
                   else value_of (agent_module r))
                  (files_of (to_cloud_run_copy r (os_path_basename (agent_whl_file r)) s1)))))"
proof -
  let ?w = "os_path_basename (agent_whl_file r)"
  let ?m = "if \<not> truthy (agent_module r) then app_name r @ ''.agent''
            else value_of (agent_module r)"
  let ?s1 = "\<lambda>q. if prefix (comps (temp_folder r)) q then None else s q"
  let ?body = "\<lambda>u::unit. try_finally (to_cloud_run_try ev r ?w ?m) (shutil_rmtree (temp_folder r))"
  have valid: "exists_in s (agent_whl_file r) \<and> endswith (agent_whl_file r) ''.whl''
              \<and> isdir_in s (agent_source_dir r)"
  proof (rule ccontr)
    assume "\<not> (exists_in s (agent_whl_file r) \<and> endswith (agent_whl_file r) ''.whl''
              \<and> isdir_in s (agent_source_dir r))"
    then have "calls_of (to_cloud_run ev r s) = []" by (rule to_cloud_run_invalid_calls)
    with assms show False by simp
  qed
  then have run: "to_cloud_run ev r s =
        io_bind (if exists_in s (temp_folder r) then shutil_rmtree (temp_folder r) else return ())
          ?body s"
    using to_cloud_run_valid by blast
  have body: "written (calls_of (?body () s0)) = written (calls_of (to_cloud_run_try ev r ?w ?m s0))"
    for s0
    by (simp add: calls_of_try_finally calls_of_rmtree)
  have "(p, text) \<in> set (written (calls_of (to_cloud_run_try ev r ?w ?m s)))
      \<or> (p, text) \<in> set (written (calls_of (to_cloud_run_try ev r ?w ?m ?s1)))"
  proof (cases "exists_in s (temp_folder r)")
    case False
    then have "calls_of (to_cloud_run ev r s) = calls_of (?body () s)"
      by (simp add: run)
    with assms body [of s] show ?thesis by simp
  next
    case True
    show ?thesis
    proof (cases "rmtree_fs (temp_folder r) s")
      case (Inl e)
      then have "calls_of (to_cloud_run ev r s) = [Rmtree (temp_folder r)]"
        using True
        by (simp add: run calls_of_io_bind shutil_rmtree_def calls_of_effect outcome_of_effect)
      with assms show ?thesis by simp
    next
      case (Inr s')
      then have "s' = ?s1"
        by (auto simp add: rmtree_fs_def split: option.splits node.splits)
      with Inr True have "calls_of (to_cloud_run ev r s) =
          Rmtree (temp_folder r) # calls_of (?body () ?s1)"
        by (simp add: run calls_of_io_bind shutil_rmtree_def calls_of_effect outcome_of_effect
            files_of_effect)
      with assms body [of ?s1] show ?thesis by simp
    qed
  qed
  then show ?thesis
  proof
    assume a: "(p, text) \<in> set (written (calls_of (to_cloud_run_try ev r ?w ?m s)))"
    from written_try [OF a] show ?thesis by (intro exI [of _ s]) simp
  next
    assume a: "(p, text) \<in> set (written (calls_of (to_cloud_run_try ev r ?w ?m ?s1)))"
    from written_try [OF a] show ?thesis by (intro exI [of _ ?s1]) simp
  qed
qed

lemma os_path_join_nonempty: "b \<noteq> [] \<Longrightarrow> os_path_join a b \<noteq> []"
  by (auto simp add: os_path_join_def)

lemma exists_requirements_iff:
  "exists_in s (os_path_join d ''requirements.txt'') \<longleftrightarrow>
     s (comps d @ [''requirements.txt'']) \<noteq> None"
  by (simp add: exists_in_def stat_def os_path_join_nonempty comps_requirements)

lemma makedirs_monotone:
  "makedirs_fs p s = Inr s' \<Longrightarrow> s q \<noteq> None \<Longrightarrow> s' q \<noteq> None"
  by (auto simp add: makedirs_fs_def split: if_splits)

lemma write_monotone:
  "write_fs p c s = Inr s' \<Longrightarrow> s q \<noteq> None \<Longrightarrow> s' q \<noteq> None"
  by (auto simp add: write_fs_def split: if_splits option.splits node.splits)

lemma copy2_monotone:
  "copy2_fs a b s = Inr s' \<Longrightarrow> s q \<noteq> None \<Longrightarrow> s' q \<noteq> None"
  using write_monotone
  by (auto simp add: copy2_fs_def Let_def split: if_splits option.splits node.splits)

lemma copytree_copies:
  "copytree_fs src dst s = Inr s' \<Longrightarrow> s' (comps dst @ x) = s (comps src @ x)"
  by (auto simp add: copytree_fs_def split: if_splits option.splits node.splits)

lemma copy_ok_steps:
  assumes "outcome_of (to_cloud_run_copy r w s) = Inr ()"
  shows "\<exists>s2 s3 s4.
      makedirs_fs (temp_folder r) s = Inr s2
    \<and> copy2_fs (agent_whl_file r) (os_path_join (temp_folder r) w) s2 = Inr s3
    \<and> copytree_fs (agent_source_dir r)
         (os_path_join (os_path_join (temp_folder r) ''agents'') (app_name r)) s3 = Inr s4
    \<and> files_of (to_cloud_run_copy r w s) = s4"
  using assms
  by (auto simp add: to_cloud_run_copy_def Let_def os_makedirs_def shutil_copy2_def
      shutil_copytree_def io_bind_effect effect_apply outcome_of_def files_of_def
      split: sum.splits prod.splits)

lemma copied_requirements:
  assumes "outcome_of (to_cloud_run_copy r w s) = Inr ()"
      and "s (comps (agent_source_dir r) @ [''requirements.txt'']) \<noteq> None"
  shows "exists_in (files_of (to_cloud_run_copy r w s)) (agent_requirements_path r)"
proof -
  from copy_ok_steps [OF assms(1)] obtain s2 s3 s4 where
    m: "makedirs_fs (temp_folder r) s = Inr s2" and
    c: "copy2_fs (agent_whl_file r) (os_path_join (temp_folder r) w) s2 = Inr s3" and
    t: "copytree_fs (agent_source_dir r)
         (os_path_join (os_path_join (temp_folder r) ''agents'') (app_name r)) s3 = Inr s4" and
    f: "files_of (to_cloud_run_copy r w s) = s4"
    by blast
  from m assms(2) have "s2 (comps (agent_source_dir r) @ [''requirements.txt'']) \<noteq> None"
    by (rule makedirs_monotone)
  with c have "s3 (comps (agent_source_dir r) @ [''requirements.txt'']) \<noteq> None"
    by (rule copy2_monotone)
  with copytree_copies [OF t, of "[''requirements.txt'']"]
  have "s4 (comps (os_path_join (os_path_join (temp_folder r) ''agents'') (app_name r))
             @ [''requirements.txt'']) \<noteq> None"
    by simp
  then show ?thesis
    by (simp add: f agent_requirements_path_def exists_requirements_iff)
qed

lemma startup_commands_dockerfile:
  assumes "NL \<notin> set (format_optional (project r))" "NL \<notin> set (format_optional (region r))"
    "NL \<notin> set w" "NL \<notin> set (app_name r)" "NL \<notin> set (session_db_url r)"
  shows \<open>startup_commands (dockerfile_content r w m a b) =
         startup_commands a @ startup_commands b
         @ [''CMD adk '' @ (if with_ui r then ''web'' else ''api_server'')
            @ '' --port='' @ str_int (port r) @ '' ''
            @ (if str_gt (adk_version r) ''0.5.0'' then ''--host=0.0.0.0'' else '''') @ '' ''
            @ (if session_db_url r \<noteq> [] then ''--session_db_url='' @ session_db_url r else '''')
            @ '' '' @ (if trace_to_cloud r then ''--trace_to_cloud'' else '''')
            @ '' "/app/agents"'']\<close>
  using assms
  by (simp add: dockerfile_content_def DOCKERFILE_TEMPLATE_format_def
      startup_commands_unlines startup_commands_single str_int_single_line)

lemma startup_commands_fragments:
  "NL \<notin> set (app_name r) \<Longrightarrow> startup_commands (agent_deps_fragment r found) = []"
  "startup_commands (additional_deps_fragment additional) = []"
  by (simp_all add: agent_deps_fragment_def additional_deps_fragment_def startup_commands_single)
     (simp add: startup_commands_def)

lemma stale_run_written:
  "written (calls_of (to_cloud_run example_env example_request stale_files)) =
     [(''tmp/Dockerfile'',
       dockerfile_content example_request ''agent.whl'' ''myagent.agent''
         (agent_deps_fragment example_request True) (additional_deps_fragment False))]"
  by (simp add: run_defs example_request_def stale_files_def example_env_def example_comps
      example_joins calls_of_def Let_def agent_deps_fragment_def additional_deps_fragment_def)

lemma extra_comps:
  "comps ''extra.txt'' = [''extra.txt'']"
  "comps ''src/requirements.txt'' = [''src'', ''requirements.txt'']"
  "comps ''tmp/extra-requirements.txt'' = [''tmp'', ''extra-requirements.txt'']"
  "os_path_join ''tmp'' ''extra-requirements.txt'' = ''tmp/extra-requirements.txt''"
  "os_path_join ''src'' ''requirements.txt'' = ''src/requirements.txt''"
  by (simp_all add: comps_def os_path_join_def)

lemma in_place_comps:
  "comps ''src/agent.whl'' = [''src'', ''agent.whl'']"
  "comps ''src/agents/myagent'' = [''src'', ''agents'', ''myagent'']"
  "comps ''src/agents/myagent/requirements.txt'' = [''src'', ''agents'', ''myagent'', ''requirements.txt'']"
  "comps ''src/Dockerfile'' = [''src'', ''Dockerfile'']"
  "os_path_join ''src'' ''agent.whl'' = ''src/agent.whl''"
  "os_path_join (os_path_join ''src'' ''agents'') ''myagent'' = ''src/agents/myagent''"
  "os_path_join ''src/agents/myagent'' ''requirements.txt'' = ''src/agents/myagent/requirements.txt''"
  "os_path_join ''src'' ''Dockerfile'' = ''src/Dockerfile''"
  by (simp_all add: comps_def os_path_join_def)

text \<open>
  Claim C8, as stated, at a request of the scenario: the wheel exists and has the
  \<^verbatim>\<open>.whl\<close> extension, the source directory exists with a \<^verbatim>\<open>requirements.txt\<close> in it,
  the app name is \<^verbatim>\<open>myagent\<close>, the port 8080 and the UI flag off. The request also names
  additional requirements, which exist. The call succeeds, and the one Dockerfile it
  writes has two dependency-install lines, not one.
\<close>

theorem scenario_one_install_counterexample:
  \<open>exists_in extra_files (agent_whl_file extra_request)
   \<and> endswith (agent_whl_file extra_request) ''.whl''
   \<and> isdir_in extra_files (agent_source_dir extra_request)
   \<and> exists_in extra_files (os_path_join (agent_source_dir extra_request) ''requirements.txt'')
   \<and> app_name extra_request = ''myagent''
   \<and> port extra_request = 8080
   \<and> \<not> with_ui extra_request
   \<and> outcome_of (to_cloud_run example_env extra_request extra_files) = Inr ()
   \<and> written (calls_of (to_cloud_run example_env extra_request extra_files))
       = [(''tmp/Dockerfile'',
           dockerfile_content extra_request ''agent.whl'' ''myagent.agent''
             (agent_deps_fragment extra_request True) (additional_deps_fragment True))]
   \<and> dependency_installs
         (dockerfile_content extra_request ''agent.whl'' ''myagent.agent''
             (agent_deps_fragment extra_request True) (additional_deps_fragment True))
       = [''RUN pip install -r "/app/agents/myagent/requirements.txt"'',
          ''RUN pip install -r "/app/extra-requirements.txt"'']\<close>
proof -
  have v: "exists_in extra_files (agent_whl_file extra_request)"
    "endswith (agent_whl_file extra_request) ''.whl''"
    "isdir_in extra_files (agent_source_dir extra_request)"
    "exists_in extra_files (os_path_join (agent_source_dir extra_request) ''requirements.txt'')"
    "app_name extra_request = ''myagent''"
    "port extra_request = 8080"
    "\<not> with_ui extra_request"
    by (simp_all add: exists_in_def isdir_in_def stat_def extra_request_def
        example_request_def extra_files_def example_comps example_joins extra_comps)
  have c: "outcome_of (to_cloud_run example_env extra_request extra_files) = Inr ()
   \<and> written (calls_of (to_cloud_run example_env extra_request extra_files))
       = [(''tmp/Dockerfile'',
           dockerfile_content extra_request ''agent.whl'' ''myagent.agent''
             (agent_deps_fragment extra_request True) (additional_deps_fragment True))]"
    by (simp add: run_defs extra_request_def example_request_def extra_files_def
        example_env_def example_comps example_joins extra_comps outcome_of_def calls_of_def
        Let_def agent_deps_fragment_def additional_deps_fragment_def)
  have d: \<open>dependency_installs
         (dockerfile_content extra_request ''agent.whl'' ''myagent.agent''
             (agent_deps_fragment extra_request True) (additional_deps_fragment True))
       = [''RUN pip install -r "/app/agents/myagent/requirements.txt"'',
          ''RUN pip install -r "/app/extra-requirements.txt"'']\<close>
    by (simp add: dependency_installs_dockerfile dependency_installs_agent_fragment
        dependency_installs_additional_fragment extra_request_def example_request_def)
  from v c d show ?thesis by blast
qed


text \<open>
  Two more runs of the scenario where the Dockerfile does not have exactly one
  dependency-install line. With the source directory given as the temp folder, the
  directory is removed before staging and the copied tree has no requirements: the
  Dockerfile has no install line. With a line break in the session URL, the text after
  it is a line of its own: the Dockerfile has a second install line.
\<close>

lemma scenario_temp_folder_is_source:
  \<open>outcome_of (to_cloud_run example_env in_place_request example_files) = Inr ()
   \<and> written (calls_of (to_cloud_run example_env in_place_request example_files))
       = [(''src/Dockerfile'',
           dockerfile_content in_place_request ''agent.whl'' ''myagent.agent'' '''' '''')]
   \<and> dependency_installs
         (dockerfile_content in_place_request ''agent.whl'' ''myagent.agent'' '''' '''') = []\<close>
proof -
  have c: "outcome_of (to_cloud_run example_env in_place_request example_files) = Inr ()
   \<and> written (calls_of (to_cloud_run example_env in_place_request example_files))
       = [(''src/Dockerfile'',
           dockerfile_content in_place_request ''agent.whl'' ''myagent.agent'' '''' '''')]"
    by (simp add: run_defs in_place_request_def example_request_def example_files_def
        example_env_def example_comps example_joins in_place_comps outcome_of_def calls_of_def
        Let_def)
  have d: \<open>dependency_installs
         (dockerfile_content in_place_request ''agent.whl'' ''myagent.agent'' '''' '''') = []\<close>
    by (simp add: dependency_installs_dockerfile in_place_request_def example_request_def)
       (simp add: dependency_installs_def)
  from c d show ?thesis by blast
qed

lemma scenario_line_break_in_session_url:
  \<open>outcome_of (to_cloud_run example_env injecting_request example_files) = Inr ()
   \<and> written (calls_of (to_cloud_run example_env injecting_request example_files))
       = [(''tmp/Dockerfile'',
           dockerfile_content injecting_request ''agent.whl'' ''myagent.agent''
             (agent_deps_fragment injecting_request True) (additional_deps_fragment False))]
   \<and> dependency_installs
         (dockerfile_content injecting_request ''agent.whl'' ''myagent.agent''
             (agent_deps_fragment injecting_request True) (additional_deps_fragment False))
       = [''RUN pip install -r "/app/agents/myagent/requirements.txt"'',
          ''RUN pip install -r "/app/agents/myagent/requirements.txt"  "/app/agents"'']\<close>
proof -
  have c: "outcome_of (to_cloud_run example_env injecting_request example_files) = Inr ()
   \<and> written (calls_of (to_cloud_run example_env injecting_request example_files))
       = [(''tmp/Dockerfile'',
           dockerfile_content injecting_request ''agent.whl'' ''myagent.agent''
             (agent_deps_fragment injecting_request True) (additional_deps_fragment False))]"
    by (simp add: run_defs injecting_request_def example_request_def example_files_def
        example_env_def example_comps example_joins outcome_of_def calls_of_def Let_def
        agent_deps_fragment_def additional_deps_fragment_def)
  have d: \<open>dependency_installs
         (dockerfile_content injecting_request ''agent.whl'' ''myagent.agent''
             (agent_deps_fragment injecting_request True) (additional_deps_fragment False))
       = [''RUN pip install -r "/app/agents/myagent/requirements.txt"'',
          ''RUN pip install -r "/app/agents/myagent/requirements.txt"  "/app/agents"'']\<close>
    by (simp add: dockerfile_content_def DOCKERFILE_TEMPLATE_format_def
          dependency_installs_unlines injecting_request_def example_request_def str_gt_def
          str_int_8080 dependency_installs_single agent_deps_fragment_def
          additional_deps_fragment_def)
       (simp add: dependency_installs_def split_on_append split_on_single)
  from c d show ?thesis by blast
qed

text \<open>
  Claim C8, amended. The request has an existing wheel with the \<^verbatim>\<open>.whl\<close> extension,
  an existing source directory with a \<^verbatim>\<open>requirements.txt\<close> in it, app name
  \<^verbatim>\<open>myagent\<close>, port 8080 and the UI flag off; no additional requirements are given, the
  temp folder is neither the source directory nor above it, and the remaining text fields
  (project, region, wheel path, session URL) carry no line break. Then
  any Dockerfile written in the run of \<^verbatim>\<open>to_cloud_run\<close> has one startup command, the
  \<^verbatim>\<open>api_server\<close> command on port 8080 (with the host, session and trace options of the
  request), and one dependency-install line, for the agent's requirements.
\<close>

theorem scenario_api_server_one_install:
  assumes h_whl: "exists_in s (agent_whl_file r)" "endswith (agent_whl_file r) ''.whl''"
      and h_src: "isdir_in s (agent_source_dir r)"
      and h_req: "exists_in s (os_path_join (agent_source_dir r) ''requirements.txt'')"
      and h_app: "app_name r = ''myagent''"
      and h_port: "port r = 8080"
      and h_ui: "\<not> with_ui r"
      and h_add: "\<not> truthy (additional_requirements r)"
      and h_apart: "\<not> prefix (comps (temp_folder r))
                     (comps (os_path_join (agent_source_dir r) ''requirements.txt''))"
      and h_lines: "NL \<notin> set (format_optional (project r))"
                 "NL \<notin> set (format_optional (region r))"
                 "NL \<notin> set (agent_whl_file r)"
                 "NL \<notin> set (session_db_url r)"
      and h_written: "(p, text) \<in> set (written (calls_of (to_cloud_run ev r s)))"
  shows \<open>startup_commands text =
           [''CMD adk api_server --port=8080 ''
            @ (if str_gt (adk_version r) ''0.5.0'' then ''--host=0.0.0.0'' else '''') @ '' ''
            @ (if session_db_url r \<noteq> [] then ''--session_db_url='' @ session_db_url r else '''')
            @ '' '' @ (if trace_to_cloud r then ''--trace_to_cloud'' else '''')
            @ '' "/app/agents"'']
         \<and> dependency_installs text =
           [''RUN pip install -r "/app/agents/myagent/requirements.txt"'']\<close>
proof -
  let ?w = "os_path_basename (agent_whl_file r)"
  let ?m = "if \<not> truthy (agent_module r) then app_name r @ ''.agent''
            else value_of (agent_module r)"
  let ?k = "comps (agent_source_dir r) @ [''requirements.txt'']"
  from written_whole_run [OF h_written] obtain s1 where
    s1: "s1 = s \<or> s1 = (\<lambda>q. if prefix (comps (temp_folder r)) q then None else s q)" and
    ok: "outcome_of (to_cloud_run_copy r ?w s1) = Inr ()" and
    w1: "(p, text) \<in> set (written (calls_of
               (to_cloud_run_dockerfile r ?w ?m (files_of (to_cloud_run_copy r ?w s1)))))"
    by blast
  from h_req have "s ?k \<noteq> None" by (simp add: exists_requirements_iff)
  moreover from h_apart have "\<not> prefix (comps (temp_folder r)) ?k"
    by (simp add: comps_requirements)
  ultimately have "s1 ?k \<noteq> None" using s1 by auto
  with ok have found: "exists_in (files_of (to_cloud_run_copy r ?w s1)) (agent_requirements_path r)"
    by (rule copied_requirements)
  have wl: "NL \<notin> set ?w" using h_lines(3) set_basename [of "agent_whl_file r"] by blast
  have al: "NL \<notin> set (app_name r)" by (simp add: h_app)
  from written_dockerfile [OF w1] found h_add
  have tx: "text = dockerfile_content r ?w ?m (agent_deps_fragment r True)
                       (additional_deps_fragment False)"
    by simp
  have \<open>dependency_installs text =
           [''RUN pip install -r "/app/agents/myagent/requirements.txt"'']\<close>
    using h_lines(1,2,4) wl al
    by (simp add: tx dependency_installs_dockerfile dependency_installs_agent_fragment
        dependency_installs_additional_fragment h_app)
  moreover have \<open>startup_commands text =
           [''CMD adk api_server --port=8080 ''
            @ (if str_gt (adk_version r) ''0.5.0'' then ''--host=0.0.0.0'' else '''') @ '' ''
            @ (if session_db_url r \<noteq> [] then ''--session_db_url='' @ session_db_url r else '''')
            @ '' '' @ (if trace_to_cloud r then ''--trace_to_cloud'' else '''')
            @ '' "/app/agents"'']\<close>
    using h_lines(1,2,4) wl al h_ui
    by (simp add: tx startup_commands_dockerfile startup_commands_fragments h_port str_int_8080)
  ultimately show ?thesis by blast
qed

theorem scenario_api_server_one_install_witness:
  \<open>exists_in stale_files (agent_whl_file example_request)
   \<and> endswith (agent_whl_file example_request) ''.whl''
   \<and> isdir_in stale_files (agent_source_dir example_request)
   \<and> exists_in stale_files (os_path_join (agent_source_dir example_request) ''requirements.txt'')
   \<and> app_name example_request = ''myagent''
   \<and> port example_request = 8080
   \<and> \<not> with_ui example_request
   \<and> \<not> truthy (additional_requirements example_request)
   \<and> \<not> prefix (comps (temp_folder example_request))
         (comps (os_path_join (agent_source_dir example_request) ''requirements.txt''))
   \<and> NL \<notin> set (format_optional (project example_request))
   \<and> NL \<notin> set (format_optional (region example_request))
   \<and> NL \<notin> set (agent_whl_file example_request)
   \<and> NL \<notin> set (session_db_url example_request)
   \<and> (''tmp/Dockerfile'',
        dockerfile_content example_request ''agent.whl'' ''myagent.agent''
          (agent_deps_fragment example_request True) (additional_deps_fragment False))
       \<in> set (written (calls_of (to_cloud_run example_env example_request stale_files)))
   \<and> startup_commands
        (dockerfile_content example_request ''agent.whl'' ''myagent.agent''
          (agent_deps_fragment example_request True) (additional_deps_fragment False)) =
       [''CMD adk api_server --port=8080    "/app/agents"'']
   \<and> dependency_installs
        (dockerfile_content example_request ''agent.whl'' ''myagent.agent''
          (agent_deps_fragment example_request True) (additional_deps_fragment False)) =
       [''RUN pip install -r "/app/agents/myagent/requirements.txt"'']\<close>
proof -
  have j: "os_path_join ''src'' ''requirements.txt'' = ''src/requirements.txt''"
    by (simp add: os_path_join_def)
  have c: "comps ''src/requirements.txt'' = [''src'', ''requirements.txt'']"
    by (simp add: comps_def)
  have h1: "exists_in stale_files (agent_whl_file example_request)"
    and h2: "endswith (agent_whl_file example_request) ''.whl''"
    and h3: "isdir_in stale_files (agent_source_dir example_request)"
    and h4: "exists_in stale_files
               (os_path_join (agent_source_dir example_request) ''requirements.txt'')"
    and h5: "app_name example_request = ''myagent''"
    and h6: "port example_request = 8080"
    and h7: "\<not> with_ui example_request"
    and h8: "\<not> truthy (additional_requirements example_request)"
    and h9: "\<not> prefix (comps (temp_folder example_request))
         (comps (os_path_join (agent_source_dir example_request) ''requirements.txt''))"
    and h10: "NL \<notin> set (format_optional (project example_request))"
    and h11: "NL \<notin> set (format_optional (region example_request))"
    and h12: "NL \<notin> set (agent_whl_file example_request)"
    and h13: "NL \<notin> set (session_db_url example_request)"
    by (simp_all add: exists_in_def isdir_in_def stat_def example_request_def stale_files_def
        example_comps example_joins j c)
  have h14: "(''tmp/Dockerfile'',
        dockerfile_content example_request ''agent.whl'' ''myagent.agent''
          (agent_deps_fragment example_request True) (additional_deps_fragment False))
       \<in> set (written (calls_of (to_cloud_run example_env example_request stale_files)))"
    by (simp add: stale_run_written)
  have v: "\<not> str_gt (adk_version example_request) ''0.5.0''"
    "session_db_url example_request = []" "\<not> trace_to_cloud example_request"
    by (simp_all add: example_request_def str_gt_def)
  from scenario_api_server_one_install [OF h1 h2 h3 h4 h5 h6 h7 h8 h9 h10 h11 h12 h13 h14]
    h1 h2 h3 h4 h5 h6 h7 h8 h9 h10 h11 h12 h13 h14 v
  show ?thesis by simp
qed


end
